theory Spec2Isabelle
  imports Complex_Main "HOL-Library.Sublist"
begin

section \<open>JavaScript strings\<close>

text \<open>
  A JavaScript string is the sequence of its UTF-16 code units; \<open>length\<close> counts code
  units, as \<open>String.prototype.length\<close> does. \<open>js\<close> turns an ASCII literal of the
  source into that sequence.
\<close>

type_synonym jstring = "nat list"

definition js :: "string \<Rightarrow> jstring" where
  "js s = map of_char s"

definition isWhiteSpace :: "nat \<Rightarrow> bool" where
  \<comment> \<open>WhiteSpace and LineTerminator of ECMAScript: what \<open>trim\<close> removes and \<open>\s\<close> matches.\<close>
  "isWhiteSpace c \<longleftrightarrow>
     c \<in> {9, 10, 11, 12, 13, 32, 160, 5760, 8232, 8233, 8239, 8287, 12288, 65279}
     \<or> (8192 \<le> c \<and> c \<le> 8202)"

definition isDigit :: "nat \<Rightarrow> bool" where
  \<comment> \<open>\<open>\d\<close> without the \<open>u\<close> flag: the ASCII digits only.\<close>
  "isDigit c \<longleftrightarrow> 48 \<le> c \<and> c \<le> 57"

definition isLineTerminator :: "nat \<Rightarrow> bool" where
  "isLineTerminator c \<longleftrightarrow> c \<in> {10, 13, 8232, 8233}"

definition asciiUpper :: "nat \<Rightarrow> nat" where
  "asciiUpper c = (if 97 \<le> c \<and> c \<le> 122 then c - 32 else c)"

definition asciiLower :: "nat \<Rightarrow> nat" where
  "asciiLower c = (if 65 \<le> c \<and> c \<le> 90 then c + 32 else c)"

definition toLowerCase :: "jstring \<Rightarrow> jstring" where
  \<comment> \<open>Exact on the ASCII range. Unicode lower-casing of a code unit outside \<open>A-Z\<close> never
      gives one of the ASCII letters the callers search for (\<open>from\<close>), so those code
      units are left as they are.\<close>
  "toLowerCase s = map asciiLower s"

definition ciEq :: "nat \<Rightarrow> nat \<Rightarrow> bool" where
  \<comment> \<open>A pattern character \<open>p\<close> (ASCII) against a code unit \<open>c\<close> under the \<open>i\<close> flag (no
      \<open>u\<close> flag): canonicalisation never maps a non-ASCII code unit to an ASCII one.\<close>
  "ciEq p c \<longleftrightarrow> asciiUpper p = asciiUpper c"

fun ciPrefix :: "jstring \<Rightarrow> jstring \<Rightarrow> bool" where
  "ciPrefix [] s = True"
| "ciPrefix (p # ps) [] = False"
| "ciPrefix (p # ps) (c # cs) = (ciEq p c \<and> ciPrefix ps cs)"

definition trimStart :: "jstring \<Rightarrow> jstring" where
  "trimStart s = dropWhile isWhiteSpace s"

definition trimEnd :: "jstring \<Rightarrow> jstring" where
  "trimEnd s = rev (dropWhile isWhiteSpace (rev s))"

definition trim :: "jstring \<Rightarrow> jstring" where
  "trim s = trimEnd (trimStart s)"

fun str_includes :: "jstring \<Rightarrow> jstring \<Rightarrow> bool" where
  \<comment> \<open>\<open>s.includes(sub)\<close>\<close>
  "str_includes [] sub = (sub = [])"
| "str_includes (c # cs) sub = (prefix sub (c # cs) \<or> str_includes cs sub)"

fun splitFirst :: "jstring \<Rightarrow> jstring \<Rightarrow> jstring" where
  \<comment> \<open>\<open>s.split(sep)[0]\<close> for a non-empty separator: the text before its first occurrence.\<close>
  "splitFirst sep [] = []"
| "splitFirst sep (c # cs) = (if prefix sep (c # cs) then [] else c # splitFirst sep cs)"

fun removeTokens :: "jstring list \<Rightarrow> jstring \<Rightarrow> jstring" where
  \<comment> \<open>\<open>s.replace(/t1|t2|.../gi, '')\<close> for literal, non-empty alternatives: scanning from
      the left, the first alternative that matches at the position is removed and the
      scan goes on after it.\<close>
  "removeTokens alts [] = []"
| "removeTokens alts (c # cs) =
     (case find (\<lambda>a. ciPrefix a (c # cs)) alts of
        Some a \<Rightarrow> removeTokens alts (drop (length a - 1) cs)
      | None \<Rightarrow> c # removeTokens alts cs)"

function replaceRuns :: "(nat \<Rightarrow> bool) \<Rightarrow> jstring \<Rightarrow> jstring \<Rightarrow> jstring" where
  \<comment> \<open>\<open>s.replace(/[class]+/g, r)\<close>: every maximal run of the class becomes \<open>r\<close>.\<close>
  "replaceRuns P r [] = []"
| "replaceRuns P r (c # cs) =
     (if P c then r @ replaceRuns P r (dropWhile P cs) else c # replaceRuns P r cs)"
  by pat_completeness auto
termination
  by (relation "measure (\<lambda>(P, r, s). length s)")
     (auto simp: length_dropWhile_le less_Suc_eq_le)

function digits10 :: "nat \<Rightarrow> jstring" where
  \<comment> \<open>The decimal digits of a natural number.\<close>
  "digits10 n = (if n < 10 then [48 + n] else digits10 (n div 10) @ [48 + n mod 10])"
  by pat_completeness auto
termination
  by (relation "measure id") auto

declare digits10.simps [simp del]

definition digitsVal :: "jstring \<Rightarrow> nat" where
  \<comment> \<open>The number a run of ASCII digits denotes.\<close>
  "digitsVal ds = foldl (\<lambda>a c. 10 * a + (c - 48)) 0 ds"


section \<open>JavaScript numbers and values\<close>

text \<open>
  A number is NaN, an infinity, or a finite decimal \<open>\<plusminus> m \<times> 10^e\<close>. Every number the
  code meets is read from decimal text (\<open>parseFloat\<close>, a JSON number) or is such a number
  divided by 100, so the decimals are closed under what the code computes. The
  arithmetic is exact: the rounding of a decimal to the nearest IEEE double is not part
  of the model.
\<close>

datatype jsnum = NaN | Infinity bool | Dec bool nat int

function stripZeros :: "nat \<Rightarrow> int \<Rightarrow> nat \<times> int" where
  \<comment> \<open>Moves the trailing zeros of the mantissa into the exponent.\<close>
  "stripZeros m e =
     (if m \<noteq> 0 \<and> m mod 10 = 0 then stripZeros (m div 10) (e + 1) else (m, e))"
  by pat_completeness auto
termination
  by (relation "measure (\<lambda>(m, e). m)") auto

declare stripZeros.simps [simp del]

definition numIsNaN :: "jsnum \<Rightarrow> bool" where
  "numIsNaN x = (case x of NaN \<Rightarrow> True | _ \<Rightarrow> False)"

definition numGreater :: "jsnum \<Rightarrow> nat \<Rightarrow> bool" where
  \<comment> \<open>\<open>x > c\<close> for a constant \<open>c\<close> that is a natural number; false on NaN.\<close>
  "numGreater x c =
     (case x of
        NaN \<Rightarrow> False
      | Infinity neg \<Rightarrow> \<not> neg
      | Dec neg m e \<Rightarrow>
          \<not> neg \<and> (if 0 \<le> e then c < m * 10 ^ nat e else c * 10 ^ nat (- e) < m))"

definition numLess :: "jsnum \<Rightarrow> nat \<Rightarrow> bool" where
  \<comment> \<open>\<open>x < c\<close> for a constant \<open>c\<close> that is a natural number; false on NaN.\<close>
  "numLess x c =
     (case x of
        NaN \<Rightarrow> False
      | Infinity neg \<Rightarrow> neg
      | Dec neg m e \<Rightarrow>
          (if neg then 0 < c \<or> 0 < m
           else if 0 \<le> e then m * 10 ^ nat e < c else m < c * 10 ^ nat (- e)))"

definition numIsInteger :: "jsnum \<Rightarrow> bool" where
  \<comment> \<open>\<open>Number.isInteger\<close>\<close>
  "numIsInteger x =
     (case x of
        Dec neg m e \<Rightarrow> 0 \<le> e \<or> m mod 10 ^ nat (- e) = 0
      | _ \<Rightarrow> False)"

definition numDiv100 :: "jsnum \<Rightarrow> jsnum" where
  "numDiv100 x = (case x of Dec neg m e \<Rightarrow> Dec neg m (e - 2) | _ \<Rightarrow> x)"

definition numTruthy :: "jsnum \<Rightarrow> bool" where
  "numTruthy x = (case x of NaN \<Rightarrow> False | Infinity neg \<Rightarrow> True | Dec neg m e \<Rightarrow> m \<noteq> 0)"


definition signPrefix :: "bool \<Rightarrow> jstring" where
  "signPrefix neg = (if neg then js ''-'' else [])"

definition numberToString :: "jsnum \<Rightarrow> jstring" where
  \<comment> \<open>\<open>Number::toString\<close> in radix 10, on the digits of the decimal.\<close>
  "numberToString x =
     (case x of
        NaN \<Rightarrow> js ''NaN''
      | Infinity neg \<Rightarrow> signPrefix neg @ js ''Infinity''
      | Dec neg m e \<Rightarrow>
          if m = 0 then js ''0''
          else
            let (s, e') = stripZeros m e;
                ds = digits10 s;
                k = int (length ds);
                n = e' + k
            in signPrefix neg @
               (if k \<le> n \<and> n \<le> 21 then ds @ replicate (nat (n - k)) 48
                else if 0 < n \<and> n \<le> 21 then take (nat n) ds @ js ''.'' @ drop (nat n) ds
                else if - 6 < n \<and> n \<le> 0 then js ''0.'' @ replicate (nat (- n)) 48 @ ds
                else
                  (if k = 1 then ds else take 1 ds @ js ''.'' @ drop 1 ds)
                  @ js ''e'' @ (if 0 \<le> n - 1 then js ''+'' else js ''-'')
                  @ digits10 (nat \<bar>n - 1\<bar>)))"

definition toFixed2 :: "jsnum \<Rightarrow> jstring" where
  \<comment> \<open>\<open>x.toFixed(2)\<close>: from \<open>10^21\<close> on it is \<open>String(x)\<close>; below, the nearest multiple
      of 0.01 (the larger one at a tie), written with two decimals.\<close>
  "toFixed2 x =
     (case x of
        Dec neg m e \<Rightarrow>
          if numLess (Dec False m e) (10 ^ 21) then
            let n = (if 0 \<le> e + 2 then m * 10 ^ nat (e + 2)
                     else (2 * m + 10 ^ nat (- (e + 2))) div (2 * 10 ^ nat (- (e + 2))));
                ds = digits10 n;
                ds = replicate (3 - length ds) 48 @ ds
            in signPrefix (neg \<and> m \<noteq> 0)
               @ take (length ds - 2) ds @ js ''.'' @ drop (length ds - 2) ds
          else numberToString x
      | _ \<Rightarrow> numberToString x)"

definition exponentPart :: "jstring \<Rightarrow> int" where
  \<comment> \<open>The value of an ExponentPart at the head of the text, 0 when there is none.\<close>
  "exponentPart r =
     (case r of
        [] \<Rightarrow> 0
      | c # cs \<Rightarrow>
          if c = 101 \<or> c = 69 then
            (let (eneg, ds) =
                   (case cs of
                      [] \<Rightarrow> (False, [])
                    | d # ds \<Rightarrow> if d = 45 then (True, ds) else if d = 43 then (False, ds)
                               else (False, cs));
                 v = takeWhile isDigit ds
             in if v = [] then 0 else if eneg then - int (digitsVal v) else int (digitsVal v))
          else 0)"

definition parseFloat :: "jstring \<Rightarrow> jsnum" where
  \<comment> \<open>The longest prefix of the trimmed text that is a StrDecimalLiteral.\<close>
  "parseFloat input =
     (let s = trimStart input;
          (neg, s1) =
            (case s of
               [] \<Rightarrow> (False, [])
             | c # cs \<Rightarrow> if c = 45 then (True, cs) else if c = 43 then (False, cs)
                        else (False, s))
      in if prefix (js ''Infinity'') s1 then Infinity neg
         else
           let ip = takeWhile isDigit s1;
               r1 = dropWhile isDigit s1;
               (fp, r2) =
                 (case r1 of
                    [] \<Rightarrow> ([], [])
                  | c # cs \<Rightarrow> if c = 46 then (takeWhile isDigit cs, dropWhile isDigit cs)
                             else ([], r1))
           in if ip = [] \<and> fp = [] then NaN
              else Dec neg (digitsVal (ip @ fp)) (exponentPart r2 - int (length fp)))"

datatype jsval =
    JUndefined
  | JNull
  | JBool bool
  | JNum jsnum
  | JStr jstring
  | JArr "jsval list"
  | JObj "(jstring \<times> jsval) list"

datatype error =
    TypeError
  | SyntaxError
  | URIError
  | HttpError nat
  | AxiosError jstring

definition bindE :: "error + 'a \<Rightarrow> ('a \<Rightarrow> error + 'b) \<Rightarrow> error + 'b" where
  \<comment> \<open>Sequencing: a throw of the first computation is the throw of the whole.\<close>
  "bindE m f = (case m of Inl e \<Rightarrow> Inl e | Inr x \<Rightarrow> f x)"

fun mapE :: "('a \<Rightarrow> error + 'b) \<Rightarrow> 'a list \<Rightarrow> error + 'b list" where
  \<comment> \<open>\<open>Array.prototype.map\<close> with a callback that may throw: the first throw ends it.\<close>
  "mapE f [] = Inr []"
| "mapE f (x # xs) = bindE (f x) (\<lambda>y. bindE (mapE f xs) (\<lambda>ys. Inr (y # ys)))"

definition truthy :: "jsval \<Rightarrow> bool" where
  "truthy v =
     (case v of
        JUndefined \<Rightarrow> False
      | JNull \<Rightarrow> False
      | JBool b \<Rightarrow> b
      | JNum x \<Rightarrow> numTruthy x
      | JStr s \<Rightarrow> s \<noteq> []
      | JArr xs \<Rightarrow> True
      | JObj kvs \<Rightarrow> True)"

definition typeof :: "jsval \<Rightarrow> jstring" where
  "typeof v =
     (case v of
        JUndefined \<Rightarrow> js ''undefined''
      | JNull \<Rightarrow> js ''object''
      | JBool b \<Rightarrow> js ''boolean''
      | JNum x \<Rightarrow> js ''number''
      | JStr s \<Rightarrow> js ''string''
      | JArr xs \<Rightarrow> js ''object''
      | JObj kvs \<Rightarrow> js ''object'')"

definition orElse :: "jsval \<Rightarrow> jsval \<Rightarrow> jsval" where
  \<comment> \<open>\<open>a || b\<close>\<close>
  "orElse a b = (if truthy a then a else b)"

definition nullish :: "jsval \<Rightarrow> bool" where
  "nullish v \<longleftrightarrow> v = JUndefined \<or> v = JNull"

fun joinComma :: "jstring list \<Rightarrow> jstring" where
  "joinComma [] = []"
| "joinComma [s] = s"
| "joinComma (s # t # ts) = s @ js '','' @ joinComma (t # ts)"

fun ToString :: "jsval \<Rightarrow> jstring" where
  \<comment> \<open>\<open>String(v)\<close> and \<open>`${v}`\<close> for a value that came out of \<open>JSON.parse\<close>.\<close>
  "ToString JUndefined = js ''undefined''"
| "ToString JNull = js ''null''"
| "ToString (JBool b) = (if b then js ''true'' else js ''false'')"
| "ToString (JNum x) = numberToString x"
| "ToString (JStr s) = s"
| "ToString (JArr xs) =
     joinComma (map (\<lambda>x. if x = JUndefined \<or> x = JNull then [] else ToString x) xs)"
| "ToString (JObj kvs) = js ''[object Object]''"

definition getProp :: "jsval \<Rightarrow> string \<Rightarrow> error + jsval" where
  \<comment> \<open>\<open>v.name\<close> for the property names the adapters read from parsed JSON (none of them
      is an index, \<open>length\<close> or a member of a built-in prototype): a TypeError on
      \<open>null\<close> and \<open>undefined\<close>, the own property of an object (the last one of that name
      in the JSON text), \<open>undefined\<close> otherwise.\<close>
  "getProp v name =
     (case v of
        JUndefined \<Rightarrow> Inl TypeError
      | JNull \<Rightarrow> Inl TypeError
      | JObj kvs \<Rightarrow> (case map_of (rev kvs) (js name) of Some x \<Rightarrow> Inr x | None \<Rightarrow> Inr JUndefined)
      | _ \<Rightarrow> Inr JUndefined)"

definition getOpt :: "jsval \<Rightarrow> string \<Rightarrow> jsval" where
  \<comment> \<open>\<open>v?.name\<close>\<close>
  "getOpt v name = (case getProp v name of Inl e \<Rightarrow> JUndefined | Inr x \<Rightarrow> x)"


section \<open>The runtime environment\<close>

text \<open>
  What the code takes from its platform and from the network, for one run of the
  handler:
  \<^item> \<open>newURL\<close>: whether \<open>new URL(s)\<close> throws (the URL it makes stands as its text);
  \<^item> \<open>parseJSON\<close>: \<open>JSON.parse\<close>;
  \<^item> \<open>generateProductId\<close>: what \<open>generateProductId()\<close> returns for the item at a
    position of a store's list (a time stamp and a random suffix in the source);
  \<^item> \<open>httpGet\<close>: how the GET request to a URL ends. The request headers (a User-Agent
    drawn at random, Accept, Referer) are not part of the key;
  \<^item> \<open>selectHtml\<close>: cheerio on the loaded page, \<open>$(selector)\<close> and then \<open>$(el).html()\<close>
    for each element, in document order (\<open>None\<close> is \<open>null\<close>);
  \<^item> \<open>selectCards\<close>: cheerio on the loaded page for the DOM adapter, \<open>$(selector)\<close>
    and what the callback reads from each element;
  \<^item> \<open>now\<close>: \<open>new Date().toISOString()\<close>.
  The output of \<open>console.log\<close> is not modelled.
\<close>

datatype http_outcome =
    NoResponse jstring  \<comment> \<open>timeout, DNS failure, connection refused: the error's message\<close>
  | Response nat jsval  \<comment> \<open>the status and \<open>response.data\<close>\<close>

record card =
  productHref :: "jstring option"
    \<comment> \<open>\<open>$el.find('a[href*="/product/"]').first().attr('href')\<close>\<close>
  ownHref :: "jstring option"  \<comment> \<open>\<open>$el.attr('href')\<close>\<close>
  nameText :: jstring
    \<comment> \<open>\<open>$el.find('.product-name, .product-title, h3').first().text()\<close>\<close>
  anchorTitle :: "jstring option"  \<comment> \<open>\<open>$el.find('a').first().attr('title')\<close>\<close>
  priceText :: jstring  \<comment> \<open>\<open>$el.find('.price, [class*="price"]').first().text()\<close>\<close>
  imgSrc :: "jstring option"  \<comment> \<open>\<open>$el.find('img').first().attr('src')\<close>\<close>
  imgDataSrc :: "jstring option"  \<comment> \<open>\<open>$el.find('img').first().attr('data-src')\<close>\<close>

record platform =
  newURL :: "jstring \<Rightarrow> error + jstring"
  parseJSON :: "jstring \<Rightarrow> error + jsval"
  generateProductId :: "jstring \<Rightarrow> nat \<Rightarrow> jstring"
  httpGet :: "jstring \<Rightarrow> http_outcome"
  selectHtml :: "string \<Rightarrow> jsval \<Rightarrow> jstring option list"
  selectCards :: "string \<Rightarrow> jsval \<Rightarrow> card list"
  now :: jstring

section \<open>Configuration\<close>

definition MAX_RESULTS :: nat where
  "MAX_RESULTS = 12"

definition PLACEHOLDER_IMAGE :: jstring where
  \<comment> \<open>\<open>'data:image/svg+xml,' + encodeURIComponent('<svg ...>')\<close>, evaluated.\<close>
  "PLACEHOLDER_IMAGE =
     js ''data:image/svg+xml,%3Csvg%20xmlns%3D%22http%3A%2F%2Fwww.w3.org%2F2000%2Fsvg%22%20width%3D%22400%22%20height%3D%22500%22%20fill%3D%22%2523f5f5f5%22%3E%3Crect%20width%3D%22400%22%20height%3D%22500%22%2F%3E%3Ctext%20x%3D%22200%22%20y%3D%22240%22%20text-anchor%3D%22middle%22%20fill%3D%22%25239ca3af%22%20font-family%3D%22sans-serif%22%20font-size%3D%2216%22%3ENo%20image%3C%2Ftext%3E%3C%2Fsvg%3E''"

section \<open>Helper functions: the field normalizers\<close>

definition call_trim :: "jsval \<Rightarrow> error + jstring" where
  \<comment> \<open>\<open>v.trim()\<close> on a value of any shape: only a string has the method.\<close>
  "call_trim v = (case v of JStr s \<Rightarrow> Inr (trim s) | _ \<Rightarrow> Inl TypeError)"

definition isCurrencySymbol :: "nat \<Rightarrow> bool" where
  \<comment> \<open>the class \<open>[\$\<pounds>\<euro>]\<close>: U+0024, U+00A3, U+20AC\<close>
  "isCurrencySymbol c \<longleftrightarrow> c = 36 \<or> c = 163 \<or> c = 8364"

definition startsWithCurrencySymbol :: "jstring \<Rightarrow> bool" where
  \<comment> \<open>\<open>/^[\$\<pounds>\<euro>]/.test(price)\<close>\<close>
  "startsWithCurrencySymbol s = (case s of [] \<Rightarrow> False | c # cs \<Rightarrow> isCurrencySymbol c)"

definition isDigitOrComma :: "nat \<Rightarrow> bool" where
  "isDigitOrComma c \<longleftrightarrow> isDigit c \<or> c = 44"

definition matchPriceAt :: "jstring \<Rightarrow> jstring option" where
  \<comment> \<open>The match of \<open>/[\$\<pounds>\<euro>]?\s*[\d,]+\.?\d*/\<close> that starts at the head of the text.
      Every quantifier is greedy and none can give a character back to a later part, so
      there is one way to match.\<close>
  "matchPriceAt s =
     (let (sym, r1) =
            (case s of [] \<Rightarrow> ([], []) | c # cs \<Rightarrow> if isCurrencySymbol c then ([c], cs) else ([], s));
          ws = takeWhile isWhiteSpace r1;
          r2 = dropWhile isWhiteSpace r1;
          ds = takeWhile isDigitOrComma r2;
          r3 = dropWhile isDigitOrComma r2
      in if ds = [] then None
         else
           let (dot, r4) =
                 (case r3 of [] \<Rightarrow> ([], []) | c # cs \<Rightarrow> if c = 46 then ([c], cs) else ([], r3))
           in Some (sym @ ws @ ds @ dot @ takeWhile isDigit r4))"

fun matchPrice :: "jstring \<Rightarrow> jstring option" where
  \<comment> \<open>\<open>cleaned.match(/[\$\<pounds>\<euro>]?\s*[\d,]+\.?\d*/)\<close>: the leftmost match, \<open>None\<close> for \<open>null\<close>.\<close>
  "matchPrice [] = None"
| "matchPrice (c # cs) =
     (case matchPriceAt (c # cs) of Some m \<Rightarrow> Some m | None \<Rightarrow> matchPrice cs)"

definition priceNumVal :: "jstring \<Rightarrow> jsnum" where
  \<comment> \<open>\<open>parseFloat(price.replace(/[^0-9.]/g, ''))\<close>\<close>
  "priceNumVal price = parseFloat (filter (\<lambda>c. isDigit c \<or> c = 46) price)"

definition extractPrice :: "jstring \<Rightarrow> jstring option" where
  \<comment> \<open>The body of \<open>cleanPrice\<close> from the trimmed text to the price text that the range
      check is made on; \<open>None\<close> where the source returns \<open>null\<close> before that check.\<close>
  "extractPrice cleaned =
     (if cleaned = [] then None
      else
        let cleaned = (if str_includes cleaned (js '' - '')
                       then trim (splitFirst (js '' - '') cleaned) else cleaned);
            cleaned = (if str_includes (toLowerCase cleaned) (js ''from'')
                       then trim (removeTokens [js ''from''] cleaned) else cleaned);
            cleaned = trim (removeTokens
                        [js ''usd'', js ''us$'', js ''aud'', js ''gbp'', js ''eur'', js ''cad'']
                        cleaned)
        in case matchPrice cleaned of
             None \<Rightarrow> None
           | Some m \<Rightarrow>
               let price = filter (\<lambda>c. c \<noteq> 44) (trim m)
               in Some (if startsWithCurrencySymbol price then price else js ''$'' @ price))"

definition cleanPrice :: "jsval \<Rightarrow> error + jsval" where
  "cleanPrice priceStr =
     (if \<not> truthy priceStr \<or> typeof priceStr \<noteq> js ''string'' then Inr JNull
      else
        bindE (call_trim priceStr) (\<lambda>cleaned.
          case extractPrice cleaned of
            None \<Rightarrow> Inr JNull
          | Some price \<Rightarrow>
              let numVal = priceNumVal price
              in if numGreater numVal 0 \<and> numLess numVal 50000 then Inr (JStr price)
                 else Inr JNull))"

definition isNewlineOrTab :: "nat \<Rightarrow> bool" where
  \<comment> \<open>the class \<open>[\n\r\t]\<close>\<close>
  "isNewlineOrTab c \<longleftrightarrow> c = 10 \<or> c = 13 \<or> c = 9"

definition promoPrefixes :: "jstring list" where
  "promoPrefixes = [js ''new'', js ''sale'', js ''hot'', js ''best seller'']"

definition isPromoSeparator :: "nat \<Rightarrow> bool" where
  \<comment> \<open>the class \<open>[:\s-]\<close>\<close>
  "isPromoSeparator c \<longleftrightarrow> c = 58 \<or> isWhiteSpace c \<or> c = 45"

definition promoPrefix :: "jstring \<Rightarrow> jstring option" where
  \<comment> \<open>The alternative of \<open>(new|sale|hot|best seller)\<close> that matches at the head of the
      text under the \<open>i\<close> flag, the first one in the order of the pattern.\<close>
  "promoPrefix s = find (\<lambda>a. ciPrefix a s) promoPrefixes"

definition stripPromo :: "jstring \<Rightarrow> jstring" where
  \<comment> \<open>\<open>s.replace(/^(new|sale|hot|best seller)[:\s-]*/gi, '')\<close>: the pattern is anchored at
      the start of the text (no \<open>m\<close> flag), so it matches once at most, whatever the
      \<open>g\<close> flag.\<close>
  "stripPromo s =
     (case promoPrefix s of
        None \<Rightarrow> s
      | Some a \<Rightarrow> dropWhile isPromoSeparator (drop (length a) s))"

definition UNKNOWN_PRODUCT :: jstring where
  "UNKNOWN_PRODUCT = js ''Unknown Product''"

definition cleanTitleMax :: "jsval \<Rightarrow> nat \<Rightarrow> error + jsval" where
  \<comment> \<open>\<open>cleanTitle(title, maxLength)\<close>\<close>
  "cleanTitleMax title maxLength =
     (if \<not> truthy title \<or> typeof title \<noteq> js ''string'' then Inr (JStr UNKNOWN_PRODUCT)
      else
        bindE (call_trim title) (\<lambda>trimmed.
          let cleaned = replaceRuns isWhiteSpace (js '' '')
                          (replaceRuns isNewlineOrTab (js '' '') trimmed);
              cleaned = trim (stripPromo cleaned)
          in if length cleaned > maxLength
             then Inr (JStr (take (maxLength - 3) cleaned @ js ''...''))
             else Inr (JStr cleaned)))"

definition cleanTitle :: "jsval \<Rightarrow> error + jsval" where
  \<comment> \<open>\<open>cleanTitle(title)\<close>: the second parameter takes its default, 120.\<close>
  "cleanTitle title = cleanTitleMax title 120"

fun testTokens :: "jstring list \<Rightarrow> jstring \<Rightarrow> bool" where
  \<comment> \<open>\<open>/t1|t2|.../i.test(s)\<close> for literal alternatives: one of them matches somewhere.\<close>
  "testTokens alts [] = False"
| "testTokens alts (c # cs) = (list_ex (\<lambda>a. ciPrefix a (c # cs)) alts \<or> testTokens alts cs)"

definition cleanImageUrl :: "platform \<Rightarrow> jsval \<Rightarrow> error + jsval" where
  "cleanImageUrl env url =
     (if \<not> truthy url \<or> typeof url \<noteq> js ''string'' then Inr JNull
      else
        bindE (call_trim url) (\<lambda>cleaned.
          let cleaned = (if prefix (js ''//'') cleaned then js ''https:'' @ cleaned else cleaned)
          in if prefix (js ''data:'') cleaned then Inr JNull
             else if testTokens [js ''placeholder'', js ''blank.gif'', js ''1x1'', js ''spacer''] cleaned
             then Inr JNull
             else (case newURL env cleaned of
                     Inr u \<Rightarrow> Inr (JStr cleaned)
                   | Inl e \<Rightarrow> Inr JNull)))"

section \<open>Candidate records and products\<close>

record candidate =
  raw_title :: jsval
  raw_price :: jsval
  raw_image :: jsval
  raw_link :: jsval

record product =
  product_id :: jstring
  store :: jstring
  storeName :: jstring
  title :: jsval
  price :: jsval
  image_url :: jsval
  link :: jsval

definition formatProduct ::
  "platform \<Rightarrow> jstring \<Rightarrow> candidate \<Rightarrow> jstring \<Rightarrow> jstring \<Rightarrow> error + product option"
where
  \<comment> \<open>\<open>formatProduct(data, storeName, storeId)\<close>; \<open>newId\<close> is what \<open>generateProductId()\<close>
      returns in this call, \<open>None\<close> is \<open>null\<close>.\<close>
  "formatProduct env newId data sName sId =
     (if \<not> truthy (raw_title data) \<and> \<not> truthy (raw_link data) then Inr None
      else
        bindE (cleanTitle (raw_title data)) (\<lambda>t.
        bindE (cleanPrice (raw_price data)) (\<lambda>p.
        bindE (cleanImageUrl env (raw_image data)) (\<lambda>i.
          Inr (Some \<lparr>
            product_id = newId,
            store = sId,
            storeName = sName,
            title = orElse t (JStr UNKNOWN_PRODUCT),
            price = orElse p (orElse (raw_price data) (JStr (js ''See price''))),
            image_url = orElse i (JStr PLACEHOLDER_IMAGE),
            link = orElse (raw_link data) (JStr (js ''#''))
          \<rparr>)))))"

definition validProduct :: "product option \<Rightarrow> bool" where
  \<comment> \<open>the predicate of \<open>filterValidProducts\<close>\<close>
  "validProduct p =
     (case p of
        None \<Rightarrow> False
      | Some q \<Rightarrow>
          truthy (title q) \<and> title q \<noteq> JStr UNKNOWN_PRODUCT
          \<and> truthy (link q) \<and> link q \<noteq> JStr (js ''#''))"

definition filterValidProducts :: "product option list \<Rightarrow> product list" where
  "filterValidProducts products = map the (filter validProduct products)"

section \<open>Store configuration\<close>

record store_config =
  cfg_name :: jstring
  cfg_domain :: "jstring option"
  cfg_type :: "jstring option"

definition shopify :: "string \<Rightarrow> string \<Rightarrow> store_config" where
  "shopify n d = \<lparr>cfg_name = js n, cfg_domain = Some (js d), cfg_type = None\<rparr>"

definition api :: "string \<Rightarrow> string \<Rightarrow> store_config" where
  "api n t = \<lparr>cfg_name = js n, cfg_domain = None, cfg_type = Some (js t)\<rparr>"

definition STORE_CONFIG :: "(jstring \<times> store_config) list" where
  "STORE_CONFIG =
     [(js ''whitefox'', shopify ''White Fox'' ''www.whitefoxboutique.com''),
      (js ''princesspolly'', shopify ''Princess Polly'' ''us.princesspolly.com''),
      (js ''reformation'', shopify ''Reformation'' ''www.thereformation.com''),
      (js ''showpo'', shopify ''Showpo'' ''www.showpo.com''),
      (js ''vici'', shopify ''Vici'' ''www.vicicollection.com''),
      (js ''altardstate'', \<lparr>cfg_name = js ''Altar'' @ [39] @ js ''d State'',
                             cfg_domain = Some (js ''www.altardstate.com''), cfg_type = None\<rparr>),
      (js ''francescas'', \<lparr>cfg_name = js ''Francesca'' @ [39] @ js ''s'',
                            cfg_domain = Some (js ''www.francescas.com''), cfg_type = None\<rparr>),
      (js ''windsor'', shopify ''Windsor'' ''www.windsorstore.com''),
      (js ''asos'', api ''ASOS'' ''asos''),
      (js ''hm'', api ''H&M'' ''hm''),
      (js ''lulus'', api ''Lulus'' ''lulus''),
      (js ''nordstrom'', api ''Nordstrom'' ''nordstrom''),
      (js ''shein'', api ''SHEIN'' ''shein'')]"

definition objectPrototypeNames :: "jstring list" where
  \<comment> \<open>The properties every object literal inherits from \<open>Object.prototype\<close>.\<close>
  "objectPrototypeNames =
     map js [''constructor'', ''__defineGetter__'', ''__defineSetter__'', ''hasOwnProperty'',
       ''__lookupGetter__'', ''__lookupSetter__'', ''isPrototypeOf'', ''propertyIsEnumerable'',
       ''toString'', ''valueOf'', ''__proto__'', ''toLocaleString'']"

datatype config_entry =
    Config store_config  \<comment> \<open>an entry of the table\<close>
  | Inherited            \<comment> \<open>a member of \<open>Object.prototype\<close>: truthy, with no \<open>domain\<close> and no \<open>type\<close>\<close>
  | Absent               \<comment> \<open>\<open>undefined\<close>\<close>

definition lookupConfig :: "jstring \<Rightarrow> config_entry" where
  \<comment> \<open>\<open>STORE_CONFIG[storeId]\<close>\<close>
  "lookupConfig storeId =
     (case map_of STORE_CONFIG storeId of
        Some c \<Rightarrow> Config c
      | None \<Rightarrow> if storeId \<in> set objectPrototypeNames then Inherited else Absent)"

definition knownStore :: "jstring \<Rightarrow> bool" where
  \<comment> \<open>one of the thirteen store ids\<close>
  "knownStore storeId \<longleftrightarrow> storeId \<in> set (map fst STORE_CONFIG)"

section \<open>Requests\<close>

definition isUnreserved :: "nat \<Rightarrow> bool" where
  \<comment> \<open>what \<open>encodeURIComponent\<close> leaves as it is: \<open>A-Z a-z 0-9 - _ . ! ~ * ' ( )\<close>\<close>
  "isUnreserved c \<longleftrightarrow>
     (65 \<le> c \<and> c \<le> 90) \<or> (97 \<le> c \<and> c \<le> 122) \<or> isDigit c
     \<or> c \<in> {45, 95, 46, 33, 126, 42, 39, 40, 41}"

definition hexDigit :: "nat \<Rightarrow> nat" where
  "hexDigit d = (if d < 10 then 48 + d else 55 + d)"

definition percentByte :: "nat \<Rightarrow> jstring" where
  "percentByte b = [37, hexDigit (b div 16), hexDigit (b mod 16)]"

definition utf8 :: "nat \<Rightarrow> nat list" where
  \<comment> \<open>the UTF-8 bytes of a code point\<close>
  "utf8 cp =
     (if cp < 128 then [cp]
      else if cp < 2048 then [192 + cp div 64, 128 + cp mod 64]
      else if cp < 65536 then [224 + cp div 4096, 128 + (cp div 64) mod 64, 128 + cp mod 64]
      else [240 + cp div 262144, 128 + (cp div 4096) mod 64, 128 + (cp div 64) mod 64,
            128 + cp mod 64])"

definition isLeadSurrogate :: "nat \<Rightarrow> bool" where
  "isLeadSurrogate c \<longleftrightarrow> 55296 \<le> c \<and> c \<le> 56319"

definition isTrailSurrogate :: "nat \<Rightarrow> bool" where
  "isTrailSurrogate c \<longleftrightarrow> 56320 \<le> c \<and> c \<le> 57343"

fun encodeURIComponent :: "jstring \<Rightarrow> error + jstring" where
  \<comment> \<open>A URIError on a lone surrogate.\<close>
  "encodeURIComponent [] = Inr []"
| "encodeURIComponent [c] =
     (if isUnreserved c then Inr [c]
      else if isLeadSurrogate c \<or> isTrailSurrogate c then Inl URIError
      else Inr (concat (map percentByte (utf8 c))))"
| "encodeURIComponent (c # d # cs) =
     (if isUnreserved c then bindE (encodeURIComponent (d # cs)) (\<lambda>r. Inr (c # r))
      else if isTrailSurrogate c then Inl URIError
      else if isLeadSurrogate c then
        (if isTrailSurrogate d then
           bindE (encodeURIComponent cs) (\<lambda>r.
             Inr (concat (map percentByte (utf8 ((c - 55296) * 1024 + (d - 56320) + 65536))) @ r))
         else Inl URIError)
      else bindE (encodeURIComponent (d # cs)) (\<lambda>r. Inr (concat (map percentByte (utf8 c)) @ r)))"

definition axiosGet :: "platform \<Rightarrow> jstring \<Rightarrow> error + nat \<times> jsval" where
  \<comment> \<open>\<open>axios.get(url, {timeout, maxRedirects, validateStatus: (s) => s < 500})\<close>: the
      promise rejects when no response arrives and when \<open>validateStatus\<close> is false.\<close>
  "axiosGet env url =
     (case httpGet env url of
        NoResponse msg \<Rightarrow> Inl (AxiosError msg)
      | Response status d \<Rightarrow>
          if status < 500 then Inr (status, d)
          else Inl (AxiosError (js ''Request failed with status code '' @ digits10 status)))"

definition fetchJSON :: "platform \<Rightarrow> jstring \<Rightarrow> error + jsval" where
  "fetchJSON env url =
     bindE (axiosGet env url) (\<lambda>(status, d).
       if status \<ge> 400 then Inl (HttpError status)
       else if typeof d = js ''string''
       then (case d of JStr s \<Rightarrow> parseJSON env s | _ \<Rightarrow> Inr d)
       else Inr d)"

definition fetchHTML :: "platform \<Rightarrow> jstring \<Rightarrow> error + jsval" where
  \<comment> \<open>The page cheerio loads stands as the response data it was loaded from.\<close>
  "fetchHTML env url =
     bindE (axiosGet env url) (\<lambda>(status, d).
       if status \<ge> 400 then Inl (HttpError status) else Inr d)"

section \<open>Shopify store scraper (Tier 1)\<close>

definition sliceForMap :: "jsval \<Rightarrow> error + jsval list" where
  \<comment> \<open>\<open>if (products.length > 0) products.slice(0, MAX_RESULTS).map(...)\<close> on a truthy
      value: the first elements of an array. A string has a positive length and no
      \<open>map\<close>: a TypeError. An object has no callable \<open>slice\<close>: a TypeError when its
      \<open>length\<close> is positive, and the branch is skipped otherwise; the adapters return
      \<open>[]\<close> in both cases and the model takes the throw. Any other value has no
      \<open>length\<close>: the branch is skipped, as for the empty array.\<close>
  "sliceForMap products =
     (case products of
        JArr xs \<Rightarrow> Inr (take MAX_RESULTS xs)
      | JStr s \<Rightarrow> Inl TypeError
      | JObj kvs \<Rightarrow> Inl TypeError
      | _ \<Rightarrow> Inr [])"

definition imageExtensions :: "jstring list" where
  "imageExtensions = [js ''jpg'', js ''png'', js ''webp'']"

definition matchExtension :: "jstring \<Rightarrow> (jstring \<times> jstring) option" where
  \<comment> \<open>\<open>\.(jpg|png|webp)(\?.*)?$\<close> at the head of the text: the groups 2 and 3. The dot of
      \<open>.*\<close> matches no line terminator and \<open>$\<close> is the end of the text.\<close>
  "matchExtension t =
     (case t of
        [] \<Rightarrow> None
      | c # u \<Rightarrow>
          if c \<noteq> 46 then None
          else
            (case find (\<lambda>x. prefix x u) imageExtensions of
               None \<Rightarrow> None
             | Some x \<Rightarrow>
                 let rest = drop (length x) u
                 in if rest = [] then Some (x, [])
                    else if hd rest = 63 \<and> \<not> list_ex isLineTerminator (tl rest)
                    then Some (x, rest)
                    else None))"

definition matchSizeSuffix :: "jstring \<Rightarrow> (jstring \<times> jstring) option" where
  \<comment> \<open>\<open>(_\d+x\d+)?\.(jpg|png|webp)(\?.*)?$\<close> at the head of the text.\<close>
  "matchSizeSuffix t =
     (case t of
        [] \<Rightarrow> None
      | c # u \<Rightarrow>
          if c = 95 then
            (let w = takeWhile isDigit u; r = dropWhile isDigit u
             in if w = [] then None
                else
                  (case r of
                     [] \<Rightarrow> None
                   | x # v \<Rightarrow>
                       if x = 120 \<and> takeWhile isDigit v \<noteq> []
                       then matchExtension (dropWhile isDigit v)
                       else None))
          else matchExtension t)"

fun upsizeImage :: "jstring \<Rightarrow> jstring" where
  \<comment> \<open>\<open>image.replace(/(_\d+x\d+)?\.(jpg|png|webp)(\?.*)?$/, '_600x.$2$3')\<close>: the leftmost
      match is replaced.\<close>
  "upsizeImage [] = []"
| "upsizeImage (c # cs) =
     (case matchSizeSuffix (c # cs) of
        Some (x, q) \<Rightarrow> js ''_600x.'' @ x @ q
      | None \<Rightarrow> c # upsizeImage cs)"

definition shopifyImage :: "jsval \<Rightarrow> error + jsval" where
  \<comment> \<open>lines 161-163 of the callback\<close>
  "shopifyImage p =
     bindE (getProp p ''image'') (\<lambda>img.
     bindE (getProp p ''featured_image'') (\<lambda>featured.
       let image = orElse img (orElse (getOpt featured ''url'') (orElse featured (JStr [])))
       in if \<not> truthy image then Inr image
          else (case image of
                  JStr s \<Rightarrow>
                    Inr (JStr (upsizeImage (if prefix (js ''http'') s then s else js ''https:'' @ s)))
                | _ \<Rightarrow> Inl TypeError)))"

definition shopifyPrice :: "jsval \<Rightarrow> jstring" where
  \<comment> \<open>lines 165-175 of the callback, from \<open>rawPrice\<close> to \<open>price\<close>\<close>
  "shopifyPrice rawPrice =
     (if rawPrice \<noteq> JNull \<and> rawPrice \<noteq> JUndefined then
        let numPrice = parseFloat (ToString rawPrice)
        in if \<not> numIsNaN numPrice \<and> numGreater numPrice 0 then
             let priceStr = ToString rawPrice;
                 isCents = (numIsInteger numPrice \<and> numGreater numPrice 100
                            \<and> \<not> str_includes priceStr (js ''.''));
                 dollars = (if isCents then numDiv100 numPrice else numPrice)
             in js ''$'' @ toFixed2 dollars
           else js ''See price''
      else js ''See price'')"

definition coalesce :: "jsval \<Rightarrow> jsval \<Rightarrow> jsval" where
  \<comment> \<open>\<open>a ?? b\<close>\<close>
  "coalesce a b = (if nullish a then b else a)"

definition shopifyItem ::
  "platform \<Rightarrow> jstring \<Rightarrow> jstring \<Rightarrow> jstring \<Rightarrow> nat \<times> jsval \<Rightarrow> error + product option"
where
  \<comment> \<open>the callback of \<open>map\<close>, on the item at position \<open>i\<close>\<close>
  "shopifyItem env baseUrl sName sId = (\<lambda>(i, p).
     bindE (shopifyImage p) (\<lambda>image.
     bindE (getProp p ''price'') (\<lambda>pr.
     bindE (getProp p ''price_min'') (\<lambda>prMin.
     bindE (getProp p ''title'') (\<lambda>t.
     bindE (getProp p ''url'') (\<lambda>u.
       formatProduct env (generateProductId env sId i)
         \<lparr>raw_title = t,
          raw_price = JStr (shopifyPrice (coalesce pr (coalesce prMin JNull))),
          raw_image = image,
          raw_link = JStr (baseUrl @ ToString u)\<rparr>
         sName sId))))))"

definition formatAll ::
  "(nat \<times> jsval \<Rightarrow> error + product option) \<Rightarrow> jsval \<Rightarrow> error + product list"
where
  \<comment> \<open>\<open>const products = ... || []; if (products.length > 0) { const formatted =
      products.slice(0, MAX_RESULTS).map(callback); return filterValidProducts(formatted); }\<close>
      and the \<open>return []\<close> behind it\<close>
  "formatAll callback products =
     bindE (sliceForMap (orElse products (JArr []))) (\<lambda>items.
     bindE (mapE callback (enumerate 0 items)) (\<lambda>formatted.
       Inr (filterValidProducts formatted)))"

definition catchAll :: "error + product list \<Rightarrow> product list" where
  \<comment> \<open>\<open>try { ... } catch (e) { console.log(...) } return []\<close>\<close>
  "catchAll body = (case body of Inl e \<Rightarrow> [] | Inr products \<Rightarrow> products)"

definition shopifyUrl :: "jstring \<Rightarrow> jstring \<Rightarrow> error + jstring" where
  "shopifyUrl baseUrl query =
     bindE (encodeURIComponent query) (\<lambda>q.
       Inr (baseUrl @ js ''/search/suggest.json?q='' @ q
            @ js ''&resources[type]=product&resources[limit]='' @ digits10 MAX_RESULTS
            @ js ''&resources[options][unavailable_products]=hide''))"

definition scrapeShopifyStore :: "platform \<Rightarrow> jstring \<Rightarrow> jstring \<Rightarrow> product list" where
  "scrapeShopifyStore env query storeId =
     (case lookupConfig storeId of
        Config config \<Rightarrow>
          (case cfg_domain config of
             None \<Rightarrow> []
           | Some domain \<Rightarrow>
               let sName = cfg_name config;
                   baseUrl = js ''https://'' @ domain
               in catchAll
                    (bindE (shopifyUrl baseUrl query) (\<lambda>apiUrl.
                     bindE (fetchJSON env apiUrl) (\<lambda>d.
                       formatAll (shopifyItem env baseUrl sName storeId)
                         (getOpt (getOpt (getOpt d ''resources'') ''results'') ''products'')))))
      | _ \<Rightarrow> [])"

section \<open>API store scrapers (Tier 2)\<close>

definition getFirst :: "jsval \<Rightarrow> jsval" where
  \<comment> \<open>\<open>v?.[0]\<close>\<close>
  "getFirst v =
     (case v of
        JArr xs \<Rightarrow> (case xs of [] \<Rightarrow> JUndefined | x # _ \<Rightarrow> x)
      | JStr s \<Rightarrow> (case s of [] \<Rightarrow> JUndefined | c # _ \<Rightarrow> JStr [c])
      | JObj kvs \<Rightarrow> (case map_of (rev kvs) (js ''0'') of Some x \<Rightarrow> x | None \<Rightarrow> JUndefined)
      | _ \<Rightarrow> JUndefined)"

definition quoted :: "string \<Rightarrow> jstring" where
  \<comment> \<open>the name between double quotes\<close>
  "quoted n = [34] @ js n @ [34]"

definition asosImage :: "jsval \<Rightarrow> error + jsval" where
  \<comment> \<open>\<open>imageBase ? `https://${imageBase.replace(/^\/\//, '')}` : ''\<close>\<close>
  "asosImage imageBase =
     (if \<not> truthy imageBase then Inr (JStr [])
      else (case imageBase of
              JStr s \<Rightarrow> Inr (JStr (js ''https://'' @ (if prefix (js ''//'') s then drop 2 s else s)))
            | _ \<Rightarrow> Inl TypeError))"

definition asosItem ::
  "platform \<Rightarrow> jstring \<Rightarrow> jstring \<Rightarrow> nat \<times> jsval \<Rightarrow> error + product option"
where
  "asosItem env sName sId = (\<lambda>(i, p).
     bindE (getProp p ''imageUrl'') (\<lambda>imageUrl.
     bindE (getProp p ''images'') (\<lambda>images.
     bindE (asosImage (orElse imageUrl (orElse (getOpt (getFirst images) ''url'') (JStr []))))
       (\<lambda>image.
     bindE (getProp p ''name'') (\<lambda>name.
     bindE (getProp p ''brandName'') (\<lambda>brandName.
     bindE (getProp p ''description'') (\<lambda>description.
     bindE (getProp p ''price'') (\<lambda>pr.
     bindE (getProp p ''url'') (\<lambda>u.
     bindE (getProp p ''id'') (\<lambda>ident.
       formatProduct env (generateProductId env sId i)
         \<lparr>raw_title = orElse name (JStr (ToString brandName @ js '' '' @ ToString description)),
          raw_price = orElse (getOpt (getOpt pr ''current'') ''text'')
                        (JStr (js ''$'' @ ToString
                           (orElse (getOpt (getOpt pr ''current'') ''value'') (JStr [])))),
          raw_image = image,
          raw_link = JStr (js ''https://www.asos.com/''
                       @ ToString (orElse u (JStr (js ''us/prd/'' @ ToString ident))))\<rparr>
         sName sId))))))))))"

definition asosUrl :: "jstring \<Rightarrow> error + jstring" where
  "asosUrl query =
     bindE (encodeURIComponent query) (\<lambda>q.
       Inr (js ''https://www.asos.com/api/product/search/v2/categories/4209?q='' @ q
            @ js ''&store=US&lang=en-US&currency=USD&rowlength=4&channel=mobile-web&country=US&limit=''
            @ digits10 MAX_RESULTS @ js ''&offset=0''))"

definition scrapeASOS :: "platform \<Rightarrow> jstring \<Rightarrow> product list" where
  "scrapeASOS env query =
     catchAll
       (bindE (asosUrl query) (\<lambda>apiUrl.
        bindE (fetchJSON env apiUrl) (\<lambda>d.
          formatAll (asosItem env (js ''ASOS'') (js ''asos'')) (getOpt d ''products''))))"

fun pushItems ::
  "(nat \<Rightarrow> jsval \<Rightarrow> error + product option) \<Rightarrow> product option list \<Rightarrow> jsval list
   \<Rightarrow> product option list"
where
  \<comment> \<open>\<open>for (const item of items) { if (products.length >= MAX_RESULTS) break;
      products.push(formatProduct(...)); }\<close> inside a \<open>try\<close> whose \<open>catch\<close> is empty: a
      throw ends the loop and what was pushed stays. The callback gets the number of
      products pushed so far.\<close>
  "pushItems callback products [] = products"
| "pushItems callback products (item # rest) =
     (if length products \<ge> MAX_RESULTS then products
      else (case callback (length products) item of
              Inl e \<Rightarrow> products
            | Inr p \<Rightarrow> pushItems callback (products @ [p]) rest))"

definition iterate :: "jsval \<Rightarrow> error + jsval list" where
  \<comment> \<open>What \<open>for ... of\<close> runs over: the elements of an array, the characters of a string
      (taken code unit by code unit); a TypeError on a value that is not iterable.\<close>
  "iterate v =
     (case v of
        JArr xs \<Rightarrow> Inr xs
      | JStr s \<Rightarrow> Inr (map (\<lambda>c. JStr [c]) s)
      | _ \<Rightarrow> Inl TypeError)"

definition htmlOrEmpty :: "jstring option \<Rightarrow> jstring" where
  \<comment> \<open>\<open>$(el).html() || ''\<close>\<close>
  "htmlOrEmpty h = (case h of None \<Rightarrow> [] | Some s \<Rightarrow> s)"

fun lazyClose :: "jstring \<Rightarrow> jstring \<Rightarrow> jstring option" where
  \<comment> \<open>\<open>[\s\S]*?\]\s*[,}]\<close> after the text \<open>acc\<close> already taken: the shortest extension
      that ends in \<open>]\<close> with, after white space, a comma or a closing brace behind it.\<close>
  "lazyClose acc [] = None"
| "lazyClose acc (c # cs) =
     (if c = 93 \<and> (case dropWhile isWhiteSpace cs of [] \<Rightarrow> False | d # _ \<Rightarrow> d = 44 \<or> d = 125)
      then Some (acc @ [c])
      else lazyClose (acc @ [c]) cs)"

definition hmArrayAt :: "jstring \<Rightarrow> jstring option" where
  \<comment> \<open>\<open>/"products"\s*:\s*(\[[\s\S]*?\])\s*[,}]/\<close> at the head of the text: group 1\<close>
  "hmArrayAt t =
     (if prefix (quoted ''products'') t then
        (case dropWhile isWhiteSpace (drop (length (quoted ''products'')) t) of
           [] \<Rightarrow> None
         | c # r1 \<Rightarrow>
             if c = 58 then
               (case dropWhile isWhiteSpace r1 of
                  [] \<Rightarrow> None
                | b # r3 \<Rightarrow> if b = 91 then lazyClose [91] r3 else None)
             else None)
      else None)"

fun hmMatch :: "jstring \<Rightarrow> jstring option" where
  \<comment> \<open>\<open>text.match(...)\<close>: group 1 of the leftmost match\<close>
  "hmMatch [] = None"
| "hmMatch (c # cs) = (case hmArrayAt (c # cs) of Some g \<Rightarrow> Some g | None \<Rightarrow> hmMatch cs)"

definition hmItem :: "platform \<Rightarrow> nat \<Rightarrow> jsval \<Rightarrow> error + product option" where
  "hmItem env i item =
     bindE (getProp item ''title'') (\<lambda>t.
     bindE (getProp item ''name'') (\<lambda>name.
     bindE (getProp item ''price'') (\<lambda>pr.
     bindE (getProp item ''whitePrice'') (\<lambda>whitePrice.
     bindE (getProp item ''redPrice'') (\<lambda>redPrice.
     bindE (getProp item ''image'') (\<lambda>img.
     bindE (getProp item ''images'') (\<lambda>images.
     bindE (getProp item ''defaultArticle'') (\<lambda>defaultArticle.
     bindE (getProp item ''swatchesLink'') (\<lambda>swatchesLink.
     bindE (getProp item ''link'') (\<lambda>lnk.
       formatProduct env (generateProductId env (js ''hm'') i)
         \<lparr>raw_title = orElse t name,
          raw_price = orElse pr (orElse (getOpt whitePrice ''formattedValue'')
                        (getOpt redPrice ''formattedValue'')),
          raw_image = orElse img (orElse (getOpt (getFirst images) ''src'')
                        (getOpt (getFirst (getOpt defaultArticle ''images'')) ''src'')),
          raw_link = (if truthy (orElse swatchesLink lnk)
                      then JStr (js ''https://www2.hm.com'' @ ToString (orElse swatchesLink lnk))
                      else JStr [])\<rparr>
         (js ''H&M'') (js ''hm'')))))))))))"

definition hmScript :: "platform \<Rightarrow> product option list \<Rightarrow> jstring \<Rightarrow> product option list" where
  \<comment> \<open>the callback of \<open>$('script').each\<close>, on the text of one script\<close>
  "hmScript env products text =
     (if str_includes text (js ''productArticleDetails'') \<or> str_includes text (quoted ''products'')
      then
        (case hmMatch text of
           None \<Rightarrow> products
         | Some g \<Rightarrow>
             (case bindE (parseJSON env g) iterate of
                Inl e \<Rightarrow> products
              | Inr items \<Rightarrow> pushItems (hmItem env) products items))
      else products)"

definition hmUrl :: "jstring \<Rightarrow> error + jstring" where
  "hmUrl query =
     bindE (encodeURIComponent query) (\<lambda>q.
       Inr (js ''https://www2.hm.com/en_us/search-results.html?q='' @ q))"

definition scrapeHM :: "platform \<Rightarrow> jstring \<Rightarrow> product list" where
  "scrapeHM env query =
     catchAll
       (bindE (hmUrl query) (\<lambda>apiUrl.
        bindE (fetchHTML env apiUrl)
          (\<lambda>page.
            Inr (filterValidProducts
                  (foldl (hmScript env) [] (map htmlOrEmpty (selectHtml env ''script'' page)))))))"

definition firstNonEmpty :: "jstring option list \<Rightarrow> jstring" where
  \<comment> \<open>\<open>a || b || ''\<close> on values that are strings or \<open>undefined\<close>\<close>
  "firstNonEmpty xs =
     (case find (\<lambda>x. x \<noteq> None \<and> x \<noteq> Some []) xs of Some (Some s) \<Rightarrow> s | _ \<Rightarrow> [])"

definition lulusCard ::
  "platform \<Rightarrow> product option list \<Rightarrow> nat \<times> card \<Rightarrow> error + product option list"
where
  \<comment> \<open>the callback of \<open>$(sel).each\<close>, on the element at index \<open>i\<close>\<close>
  "lulusCard env products = (\<lambda>(i, el).
     if i \<ge> MAX_RESULTS then Inr products
     else
       let lnk = firstNonEmpty [productHref el, ownHref el];
           lnk = (if lnk \<noteq> [] \<and> \<not> prefix (js ''http'') lnk
                  then js ''https://www.lulus.com'' @ lnk else lnk);
           t = (if trim (nameText el) \<noteq> [] then trim (nameText el)
                else firstNonEmpty [anchorTitle el]);
           pr = trim (priceText el);
           img = firstNonEmpty [imgSrc el, imgDataSrc el];
           img = (if prefix (js ''//'') img then js ''https:'' @ img else img)
       in if t \<noteq> [] \<and> lnk \<noteq> [] then
            bindE (formatProduct env (generateProductId env (js ''lulus'') (length products))
                     \<lparr>raw_title = JStr t, raw_price = JStr pr, raw_image = JStr img,
                      raw_link = JStr lnk\<rparr>
                     (js ''Lulus'') (js ''lulus''))
              (\<lambda>p. Inr (products @ [p]))
          else Inr products)"

fun foldE :: "('b \<Rightarrow> 'a \<Rightarrow> error + 'b) \<Rightarrow> 'b \<Rightarrow> 'a list \<Rightarrow> error + 'b" where
  \<comment> \<open>a loop whose body may throw\<close>
  "foldE f acc [] = Inr acc"
| "foldE f acc (x # xs) = bindE (f acc x) (\<lambda>acc'. foldE f acc' xs)"

definition lulusSelectors :: "string list" where
  "lulusSelectors =
     [''.product-card'', ''.product-tile'', ''[class*=\"product-card\"]'',
      ''a[href*=\"/product/\"]'']"

definition lulusSelector ::
  "platform \<Rightarrow> jsval \<Rightarrow> product option list \<Rightarrow> string \<Rightarrow> error + product option list"
where
  \<comment> \<open>the body of \<open>for (const sel of selectors)\<close>: nothing more once a product is there\<close>
  "lulusSelector env page products sel =
     (if length products > 0 then Inr products
      else foldE (lulusCard env) products (enumerate 0 (selectCards env sel page)))"

definition lulusUrl :: "jstring \<Rightarrow> error + jstring" where
  "lulusUrl query =
     bindE (encodeURIComponent query) (\<lambda>q. Inr (js ''https://www.lulus.com/search?q='' @ q))"

definition scrapeLulus :: "platform \<Rightarrow> jstring \<Rightarrow> product list" where
  "scrapeLulus env query =
     catchAll
       (bindE (lulusUrl query) (\<lambda>searchUrl.
        bindE (fetchHTML env searchUrl) (\<lambda>page.
        bindE (foldE (lulusSelector env page) [] lulusSelectors) (\<lambda>products.
          Inr (filterValidProducts products)))))"

definition isArrayIndex :: "jstring \<Rightarrow> bool" where
  \<comment> \<open>a property key that is the canonical decimal form of an integer below \<open>2^32 - 1\<close>\<close>
  "isArrayIndex k \<longleftrightarrow>
     k \<noteq> [] \<and> list_all isDigit k \<and> (k = js ''0'' \<or> hd k \<noteq> 48) \<and> digitsVal k < 4294967295"

definition ownKeys :: "(jstring \<times> jsval) list \<Rightarrow> jstring list" where
  \<comment> \<open>The own property keys of an object \<open>JSON.parse\<close> made from these members, in property
      order: the integer keys ascending, then the other keys in the order of their first
      appearance.\<close>
  "ownKeys kvs =
     (let ks = rev (remdups (rev (map fst kvs)))
      in sort_key digitsVal (filter isArrayIndex ks) @ filter (\<lambda>k. \<not> isArrayIndex k) ks)"

definition objectValues :: "jsval \<Rightarrow> jsval list" where
  \<comment> \<open>\<open>Object.values(v)\<close> for a value that is neither \<open>null\<close> nor \<open>undefined\<close>\<close>
  "objectValues v =
     (case v of
        JArr xs \<Rightarrow> xs
      | JObj kvs \<Rightarrow>
          map (\<lambda>k. case map_of (rev kvs) k of Some x \<Rightarrow> x | None \<Rightarrow> JUndefined) (ownKeys kvs)
      | JStr s \<Rightarrow> map (\<lambda>c. JStr [c]) s
      | _ \<Rightarrow> [])"

definition nordstromItem :: "platform \<Rightarrow> nat \<Rightarrow> jsval \<Rightarrow> error + product option" where
  "nordstromItem env i item =
     bindE (getProp item ''product'') (\<lambda>prod.
       let p = orElse prod item
       in formatProduct env (generateProductId env (js ''nordstrom'') i)
            \<lparr>raw_title = JStr (trim (ToString (orElse (getOpt p ''brandName'') (JStr [])) @ js '' ''
                            @ ToString (orElse (getOpt p ''productName'')
                                (orElse (getOpt p ''name'') (JStr []))))),
             raw_price = orElse (getOpt p ''currentPriceString'')
                           (orElse (getOpt p ''priceString'')
                              (JStr (js ''$'' @ ToString (orElse (getOpt p ''currentPrice'')
                                 (orElse (getOpt p ''price'') (JStr [])))))),
             raw_image = orElse (getOpt p ''imageUrl'')
                           (orElse (getOpt p ''mediaUrl'')
                              (orElse (getOpt (getFirst (getOpt p ''images'')) ''url'') (JStr []))),
             raw_link = (if truthy (getOpt p ''productPageUrl'')
                         then JStr (js ''https://www.nordstrom.com''
                                @ ToString (getOpt p ''productPageUrl''))
                         else JStr (js ''https://www.nordstrom.com/s/''
                                @ ToString (orElse (getOpt p ''id'') (JStr []))))\<rparr>
            (js ''Nordstrom'') (js ''nordstrom''))"

definition nordstromSearchResults :: "jsval \<Rightarrow> jsval" where
  \<comment> \<open>\<open>data?.props?.pageProps?.searchResults?.productsById || data?.props?.pageProps?.products
      || {}\<close>\<close>
  "nordstromSearchResults d =
     (let pageProps = getOpt (getOpt d ''props'') ''pageProps''
      in orElse (getOpt (getOpt pageProps ''searchResults'') ''productsById'')
           (orElse (getOpt pageProps ''products'') (JObj [])))"

definition nordstromScript ::
  "platform \<Rightarrow> product option list \<Rightarrow> jstring option \<Rightarrow> product option list"
where
  \<comment> \<open>the callback of \<open>each\<close>, on \<open>$(el).html()\<close>; \<open>JSON.parse(null)\<close> is \<open>null\<close>\<close>
  "nordstromScript env products h =
     (case (case h of None \<Rightarrow> Inr JNull | Some s \<Rightarrow> parseJSON env s) of
        Inl e \<Rightarrow> products
      | Inr d \<Rightarrow>
          pushItems (nordstromItem env) products (objectValues (nordstromSearchResults d)))"

definition nordstromUrl :: "jstring \<Rightarrow> error + jstring" where
  "nordstromUrl query =
     bindE (encodeURIComponent query) (\<lambda>q.
       Inr (js ''https://www.nordstrom.com/sr?origin=keywordsearch&keyword='' @ q
            @ js ''&filterByGender=Women''))"

definition scrapeNordstrom :: "platform \<Rightarrow> jstring \<Rightarrow> product list" where
  "scrapeNordstrom env query =
     catchAll
       (bindE (nordstromUrl query) (\<lambda>searchUrl.
        bindE (fetchHTML env searchUrl) (\<lambda>page.
          Inr (filterValidProducts
                (foldl (nordstromScript env) []
                   (selectHtml env ''script#__NEXT_DATA__, script[type=\"application/json\"]''
                      page))))))"

definition notBracket :: "nat \<Rightarrow> bool" where
  \<comment> \<open>the class \<open>[^[\]]\<close>\<close>
  "notBracket c \<longleftrightarrow> c \<noteq> 91 \<and> c \<noteq> 93"

definition sheinArrayAt :: "string \<Rightarrow> jstring \<Rightarrow> jstring option" where
  \<comment> \<open>\<open>\[\{[^[\]]*"marker"[^[\]]*\}\]\<close> at the head of the text. Between \<open>[{\<close> and the
      closing \<open>]\<close> there is no bracket, so the match ends at the first bracket behind
      \<open>[{\<close>, whatever the two starred parts take.\<close>
  "sheinArrayAt marker t =
     (if prefix (js ''[{'') t then
        (let r = takeWhile notBracket (drop 2 t);
             rest = dropWhile notBracket (drop 2 t)
         in if rest \<noteq> [] \<and> hd rest = 93 \<and> r \<noteq> [] \<and> last r = 125
               \<and> str_includes (butlast r) (quoted marker)
            then Some (js ''[{'' @ r @ js '']'')
            else None)
      else None)"

fun sheinMatches :: "string \<Rightarrow> jstring \<Rightarrow> jstring list" where
  \<comment> \<open>\<open>text.match(/.../g)\<close>: all matches from left to right, none overlapping\<close>
  "sheinMatches marker [] = []"
| "sheinMatches marker (c # cs) =
     (case sheinArrayAt marker (c # cs) of
        Some m \<Rightarrow> m # sheinMatches marker (drop (length m - 1) cs)
      | None \<Rightarrow> sheinMatches marker cs)"

definition sheinItem :: "platform \<Rightarrow> nat \<Rightarrow> jsval \<Rightarrow> error + product option" where
  "sheinItem env i item =
     bindE (getProp item ''goods_name'') (\<lambda>goods_name.
       formatProduct env (generateProductId env (js ''shein'') i)
         \<lparr>raw_title = orElse goods_name (orElse (getOpt item ''title'') (getOpt item ''name'')),
          raw_price = (if truthy (getOpt (getOpt item ''salePrice'') ''amount'')
                       then JStr (js ''$'' @ ToString (getOpt (getOpt item ''salePrice'') ''amount''))
                       else orElse (getOpt item ''sale_price'')
                              (orElse (getOpt item ''retail_price'') (JStr []))),
          raw_image = orElse (getOpt item ''goods_img'') (orElse (getOpt item ''image'') (JStr [])),
          raw_link = (if truthy (getOpt item ''goods_url_name'')
                      then JStr (js ''https://us.shein.com/'' @ ToString (getOpt item ''goods_url_name'')
                             @ js ''-p-'' @ ToString (getOpt item ''goods_id'') @ js ''.html'')
                      else JStr (js ''https://us.shein.com/p-''
                             @ ToString (orElse (getOpt item ''goods_id'') (JStr []))
                             @ js ''.html''))\<rparr>
         (js ''SHEIN'') (js ''shein''))"

definition sheinMatch :: "platform \<Rightarrow> product option list \<Rightarrow> jstring \<Rightarrow> product option list" where
  \<comment> \<open>the body of \<open>for (const match of matches)\<close>\<close>
  "sheinMatch env products m =
     (case bindE (parseJSON env m) iterate of
        Inl e \<Rightarrow> products
      | Inr items \<Rightarrow> pushItems (sheinItem env) products items)"

definition sheinScript :: "platform \<Rightarrow> product option list \<Rightarrow> jstring \<Rightarrow> product option list" where
  \<comment> \<open>the callback of \<open>$('script').each\<close>, on the text of one script\<close>
  "sheinScript env products text =
     (if str_includes text (js ''productListData'') \<or> str_includes text (js ''goods_id'')
      then
        (let byId = sheinMatches ''goods_id'' text;
             matches = (if byId \<noteq> [] then byId else sheinMatches ''goods_sn'' text)
         in foldl (sheinMatch env) products matches)
      else products)"

definition sheinUrl :: "jstring \<Rightarrow> error + jstring" where
  "sheinUrl query =
     bindE (encodeURIComponent query) (\<lambda>q. Inr (js ''https://us.shein.com/pdsearch/'' @ q @ js ''/''))"

definition scrapeShein :: "platform \<Rightarrow> jstring \<Rightarrow> product list" where
  "scrapeShein env query =
     catchAll
       (bindE (sheinUrl query) (\<lambda>searchUrl.
        bindE (fetchHTML env searchUrl) (\<lambda>page.
          Inr (filterValidProducts
                (foldl (sheinScript env) [] (map htmlOrEmpty (selectHtml env ''script'' page)))))))"

section \<open>Main search router\<close>

definition searchStore :: "platform \<Rightarrow> jstring \<Rightarrow> jstring \<Rightarrow> product list" where
  "searchStore env storeId query =
     (case lookupConfig storeId of
        Absent \<Rightarrow> []
      | Inherited \<Rightarrow> []
      | Config config \<Rightarrow>
          (case cfg_domain config of
             Some domain \<Rightarrow> scrapeShopifyStore env query storeId
           | None \<Rightarrow>
               if cfg_type config = Some (js ''asos'') then scrapeASOS env query
               else if cfg_type config = Some (js ''hm'') then scrapeHM env query
               else if cfg_type config = Some (js ''lulus'') then scrapeLulus env query
               else if cfg_type config = Some (js ''nordstrom'') then scrapeNordstrom env query
               else if cfg_type config = Some (js ''shein'') then scrapeShein env query
               else []))"

section \<open>Vercel handler\<close>

datatype stores_field =
    NotArray jsval  \<comment> \<open>any value that is not an array\<close>
  | StoreIds "jstring list"  \<comment> \<open>an array, of strings\<close>

record request_body =
  req_query :: jsval
  req_stores :: stores_field
  req_category :: jsval

record request =
  req_method :: jstring
  req_body :: "request_body option"  \<comment> \<open>\<open>None\<close>: \<open>req.body\<close> is \<open>undefined\<close>\<close>

record store_result =
  sr_id :: jstring
  sr_name :: jstring
  sr_results :: "product list"
  sr_error :: "jstring option"  \<comment> \<open>\<open>None\<close> is \<open>null\<close>\<close>
  sr_count :: nat

record search_response =
  resp_query :: jstring
  resp_category :: jsval
  resp_timestamp :: jstring
  resp_stores :: "store_result list"

datatype payload =
    NoBody  \<comment> \<open>\<open>res.status(n).end()\<close>\<close>
  | ErrorBody jstring  \<comment> \<open>\<open>{ error: message }\<close>\<close>
  | SearchBody search_response

record reply =
  reply_headers :: "(jstring \<times> jstring) list"
  reply_status :: nat
  reply_body :: payload

datatype rejection =
    ErrorObject jstring  \<comment> \<open>an Error, with its message\<close>
  | Nullish  \<comment> \<open>\<open>null\<close> or \<open>undefined\<close>: reading \<open>.message\<close> throws\<close>

type_synonym task = "jstring \<Rightarrow> jstring \<Rightarrow> rejection + product list"

definition corsHeaders :: "(jstring \<times> jstring) list" where
  "corsHeaders =
     [(js ''Access-Control-Allow-Origin'', js ''*''),
      (js ''Access-Control-Allow-Methods'', js ''POST, OPTIONS''),
      (js ''Access-Control-Allow-Headers'', js ''Content-Type'')]"

definition respond :: "nat \<Rightarrow> payload \<Rightarrow> reply" where
  "respond status b = \<lparr>reply_headers = corsHeaders, reply_status = status, reply_body = b\<rparr>"

definition sanitize :: "jstring \<Rightarrow> jstring" where
  \<comment> \<open>\<open>query.trim().replace(/[<>{}]/g, '').slice(0, 200)\<close>\<close>
  "sanitize q = take 200 (filter (\<lambda>c. c \<notin> {60, 62, 123, 125}) (trim q))"

definition validQuery :: "jsval \<Rightarrow> bool" where
  \<comment> \<open>the negation of \<open>!query || typeof query !== 'string' || query.trim().length === 0\<close>\<close>
  "validQuery q = (case q of JStr s \<Rightarrow> s \<noteq> [] \<and> trim s \<noteq> [] | _ \<Rightarrow> False)"

definition queryText :: "jsval \<Rightarrow> jstring" where
  "queryText q = (case q of JStr s \<Rightarrow> s | _ \<Rightarrow> [])"

definition settle ::
  "jstring \<Rightarrow> rejection + product list \<Rightarrow> error + jstring \<times> product list \<times> jstring option"
where
  \<comment> \<open>\<open>.then(results => ({ storeId, results, error: null }))
       .catch(error => ({ storeId, results: [], error: error.message }))\<close>\<close>
  "settle storeId outcome =
     (case outcome of
        Inr results \<Rightarrow> Inr (storeId, results, None)
      | Inl (ErrorObject msg) \<Rightarrow> Inr (storeId, [], Some msg)
      | Inl Nullish \<Rightarrow> Inl TypeError)"

definition storeDisplayName :: "jstring \<Rightarrow> jstring" where
  \<comment> \<open>\<open>STORE_CONFIG[storeId]?.name || storeId\<close>. An inherited member that is a function
      has its own name, which is the key but for \<open>constructor\<close>.\<close>
  "storeDisplayName storeId =
     (case lookupConfig storeId of
        Config config \<Rightarrow> if cfg_name config \<noteq> [] then cfg_name config else storeId
      | Inherited \<Rightarrow> if storeId = js ''constructor'' then js ''Object'' else storeId
      | Absent \<Rightarrow> storeId)"

definition storeResult :: "jstring \<times> product list \<times> jstring option \<Rightarrow> store_result" where
  \<comment> \<open>the callback of \<open>storeResults.map\<close>\<close>
  "storeResult = (\<lambda>(storeId, results, err).
     \<lparr>sr_id = storeId,
      sr_name = storeDisplayName storeId,
      sr_results = results,
      sr_error = err,
      sr_count = length results\<rparr>)"

definition handlerWith :: "task \<Rightarrow> platform \<Rightarrow> request \<Rightarrow> error + reply" where
  \<comment> \<open>The handler over any behaviour of the per-store tasks: \<open>run storeId query\<close> is how
      the promise of \<open>searchStore(storeId, query)\<close> settles. \<open>Inl\<close> is a rejection of the
      handler's own promise.\<close>
  "handlerWith run env req =
     (if req_method req = js ''OPTIONS'' then Inr (respond 200 NoBody)
      else if req_method req \<noteq> js ''POST''
      then Inr (respond 405 (ErrorBody (js ''Method not allowed'')))
      else
        (case req_body req of
           None \<Rightarrow> Inl TypeError
         | Some b \<Rightarrow>
             if \<not> validQuery (req_query b)
             then Inr (respond 400 (ErrorBody (js ''Search query is required'')))
             else
               (case req_stores b of
                  NotArray v \<Rightarrow>
                    Inr (respond 400 (ErrorBody (js ''At least one store must be selected'')))
                | StoreIds ids \<Rightarrow>
                    if ids = []
                    then Inr (respond 400 (ErrorBody (js ''At least one store must be selected'')))
                    else
                      let sanitizedQuery = sanitize (queryText (req_query b));
                          validStores = filter (\<lambda>storeId. lookupConfig storeId \<noteq> Absent) ids
                      in (case mapE (\<lambda>storeId. settle storeId (run storeId sanitizedQuery))
                                 validStores of
                            Inl e \<Rightarrow>
                              Inr (respond 500 (ErrorBody (js ''Search failed. Please try again.'')))
                          | Inr storeResults \<Rightarrow>
                              Inr (respond 200 (SearchBody
                                \<lparr>resp_query = sanitizedQuery,
                                 resp_category = orElse (req_category b) JNull,
                                 resp_timestamp = now env,
                                 resp_stores = map storeResult storeResults\<rparr>))))))"

definition handler :: "platform \<Rightarrow> request \<Rightarrow> error + reply" where
  \<comment> \<open>The handler of the source: each task is \<open>searchStore\<close>, an async function whose
      promise is fulfilled with the list it returns.\<close>
  "handler env req = handlerWith (\<lambda>storeId query. Inr (searchStore env storeId query)) env req"

section \<open>A concrete environment\<close>

definition examplePlatform :: platform where
  \<comment> \<open>An environment for the concrete runs below: \<open>new URL\<close> accepts the texts that start
      with \<open>http\<close>, \<open>JSON.parse\<close> rejects every text, no request gets a response and
      no selector finds an element.\<close>
  "examplePlatform = \<lparr>
     newURL = (\<lambda>s. if prefix (js ''http'') s then Inr s else Inl TypeError),
     parseJSON = (\<lambda>s. Inl SyntaxError),
     generateProductId = (\<lambda>s n. js ''prod_'' @ digits10 n),
     httpGet = (\<lambda>u. NoResponse (js ''timeout of 15000ms exceeded'')),
     selectHtml = (\<lambda>sel page. []),
     selectCards = (\<lambda>sel page. []),
     now = js ''2024-01-01T00:00:00.000Z''
   \<rparr>"

definition callForPrice :: candidate where
  \<comment> \<open>a candidate record whose price is a text with no number in it\<close>
  "callForPrice = \<lparr>raw_title = JStr (js ''Linen Dress''), raw_price = JStr (js ''Call for price''),
      raw_image = JUndefined, raw_link = JStr (js ''https://shop.example/p/1'')\<rparr>"


definition dressItem :: "string \<Rightarrow> jsval \<Rightarrow> jsval" where
  \<comment> \<open>an item of a search-suggest response\<close>
  "dressItem t pr =
     JObj [(js ''title'', JStr (js t)), (js ''price'', pr),
           (js ''image'', JStr (js ''//cdn.example/a_100x100.jpg?v=3'')),
           (js ''url'', JStr (js ''/products/a''))]"

definition suggestResponse :: jsval where
  \<comment> \<open>a search-suggest response with two items: the price of the first is the number
      150, the price of the second is the string \<open>150.00\<close>\<close>
  "suggestResponse =
     JObj [(js ''resources'', JObj [(js ''results'', JObj [(js ''products'',
       JArr [dressItem ''Dress A'' (JNum (Dec False 150 0)),
             dressItem ''Dress B'' (JStr (js ''150.00''))])])])]"

definition shopifyPlatform :: platform where
  \<comment> \<open>as \<open>examplePlatform\<close>, but every request is answered with \<open>suggestResponse\<close>\<close>
  "shopifyPlatform = examplePlatform\<lparr>httpGet := (\<lambda>u. Response 200 suggestResponse)\<rparr>"

definition searchRequest :: "jstring list \<Rightarrow> request" where
  \<comment> \<open>a POST request for \<open>red dress\<close> in the given stores\<close>
  "searchRequest ids =
     \<lparr>req_method = js ''POST'',
      req_body = Some \<lparr>req_query = JStr (js ''red dress''), req_stores = StoreIds ids,
                        req_category = JUndefined\<rparr>\<rparr>"

definition dressProduct :: "string \<Rightarrow> string \<Rightarrow> string \<Rightarrow> product" where
  \<comment> \<open>the product the Vici adapter makes of a \<open>dressItem\<close>\<close>
  "dressProduct ident t pr =
     \<lparr>product_id = js ident, store = js ''vici'', storeName = js ''Vici'',
      title = JStr (js t), price = JStr (js pr),
      image_url = JStr (js ''https://cdn.example/a_600x.jpg?v=3''),
      link = JStr (js ''https://www.vicicollection.com/products/a'')\<rparr>"

definition viciReply :: reply where
  \<comment> \<open>the reply to \<open>searchRequest [vici]\<close> when the store answers with \<open>suggestResponse\<close>\<close>
  "viciReply =
     respond 200 (SearchBody
       \<lparr>resp_query = js ''red dress'', resp_category = JNull,
        resp_timestamp = js ''2024-01-01T00:00:00.000Z'',
        resp_stores =
          [\<lparr>sr_id = js ''vici'', sr_name = js ''Vici'',
            sr_results = [dressProduct ''prod_0'' ''Dress A'' ''$1.50'',
                          dressProduct ''prod_1'' ''Dress B'' ''$150.00''],
            sr_error = None, sr_count = 2\<rparr>]\<rparr>)"



definition threeTasks :: task where
  \<comment> \<open>three adapter tasks: one throws, one returns a product, one returns nothing\<close>
  "threeTasks storeId query =
     (if storeId = js ''vici'' then Inl (ErrorObject (js ''boom''))
      else if storeId = js ''hm'' then Inr [dressProduct ''prod_0'' ''Dress A'' ''$1.50'']
      else Inr [])"

definition threeReply :: reply where
  \<comment> \<open>the reply to \<open>searchRequest [vici, hm, asos]\<close> over \<open>threeTasks\<close>\<close>
  "threeReply =
     respond 200 (SearchBody
       \<lparr>resp_query = js ''red dress'', resp_category = JNull,
        resp_timestamp = js ''2024-01-01T00:00:00.000Z'',
        resp_stores =
          [\<lparr>sr_id = js ''vici'', sr_name = js ''Vici'', sr_results = [],
            sr_error = Some (js ''boom''), sr_count = 0\<rparr>,
           \<lparr>sr_id = js ''hm'', sr_name = js ''H&M'',
            sr_results = [dressProduct ''prod_0'' ''Dress A'' ''$1.50''],
            sr_error = None, sr_count = 1\<rparr>,
           \<lparr>sr_id = js ''asos'', sr_name = js ''ASOS'', sr_results = [],
            sr_error = None, sr_count = 0\<rparr>]\<rparr>)"

definition coat :: "string \<Rightarrow> string \<Rightarrow> jsval" where
  \<comment> \<open>an item of the Nordstrom page\<close>
  "coat n u = JObj [(js ''productName'', JStr (js n)), (js ''productPageUrl'', JStr (js u))]"

definition nextDataText :: jstring where
  \<comment> \<open>The text of the script of a Nordstrom page: \<open>productsById\<close> lists the product
      with id 20 before the product with id 10.\<close>
  "nextDataText = js ''{\"props\":{\"pageProps\":{\"searchResults\":{\"productsById\":{\"20\":{\"productName\":\"Coat A\",\"productPageUrl\":\"/s/20\"},\"10\":{\"productName\":\"Coat B\",\"productPageUrl\":\"/s/10\"}}}}}}''"

definition nextData :: jsval where
  \<comment> \<open>the value of \<open>nextDataText\<close>, its members in the order of the text\<close>
  "nextData =
     JObj [(js ''props'', JObj [(js ''pageProps'', JObj [(js ''searchResults'',
       JObj [(js ''productsById'',
         JObj [(js ''20'', coat ''Coat A'' ''/s/20''), (js ''10'', coat ''Coat B'' ''/s/10'')])])])])]"

definition nordstromPlatform :: platform where
  \<comment> \<open>as \<open>examplePlatform\<close>, but every request is answered with a page whose one script
      is \<open>nextDataText\<close>, which \<open>JSON.parse\<close> reads as \<open>nextData\<close>\<close>
  "nordstromPlatform = examplePlatform
     \<lparr>parseJSON := (\<lambda>s. if s = nextDataText then Inr nextData else Inl SyntaxError),
      httpGet := (\<lambda>u. Response 200 (JStr (js ''<html>''))),
      selectHtml := (\<lambda>sel page. [Some nextDataText])\<rparr>"

section \<open>Predicates of the statements and proofs\<close>

fun singleSpaced :: "jstring \<Rightarrow> bool" where
  \<comment> \<open>Every white space character of the text is a space (U+0020) and no two of them
      are adjacent: the form \<open>replace(/\s+/g, ' ')\<close> leaves a text in.\<close>
  "singleSpaced [] = True"
| "singleSpaced [c] = (isWhiteSpace c \<longrightarrow> c = 32)"
| "singleSpaced (c # d # cs) =
     ((isWhiteSpace c \<longrightarrow> c = 32 \<and> \<not> isWhiteSpace d) \<and> singleSpaced (d # cs))"

definition trimmed :: "jstring \<Rightarrow> bool" where
  \<comment> \<open>no white space at either end\<close>
  "trimmed s \<longleftrightarrow> s = [] \<or> (\<not> isWhiteSpace (hd s) \<and> \<not> isWhiteSpace (last s))"



definition allValid :: "product list \<Rightarrow> bool" where
  \<comment> \<open>no product carries a sentinel title or a sentinel link\<close>
  "allValid ps \<longleftrightarrow>
     (\<forall>p \<in> set ps. title p \<noteq> JStr UNKNOWN_PRODUCT \<and> link p \<noteq> JStr (js ''#''))"

definition madeInOrder :: "('i \<Rightarrow> product \<Rightarrow> bool) \<Rightarrow> 'i list \<Rightarrow> product list \<Rightarrow> bool" where
  \<comment> \<open>The products come from items of the list, one product from one item, in the
      relative order of those items.\<close>
  "madeInOrder made items ps \<longleftrightarrow> (\<exists>ys. subseq ys items \<and> list_all2 made ys ps)"

definition jsonItems :: "jsval \<Rightarrow> jsval list" where
  \<comment> \<open>the elements of an array, nothing for any other value\<close>
  "jsonItems v = (case v of JArr xs \<Rightarrow> xs | _ \<Rightarrow> [])"

definition shopifyUpstream :: "platform \<Rightarrow> jstring \<Rightarrow> jstring \<Rightarrow> jsval list" where
  \<comment> \<open>The items of the response of a Tier 1 store, in the order of the response: the
      array at \<open>resources.results.products\<close>.\<close>
  "shopifyUpstream env query storeId =
     (case lookupConfig storeId of
        Config config \<Rightarrow>
          (case cfg_domain config of
             None \<Rightarrow> []
           | Some domain \<Rightarrow>
               (case bindE (shopifyUrl (js ''https://'' @ domain) query) (fetchJSON env) of
                  Inl e \<Rightarrow> []
                | Inr d \<Rightarrow>
                    jsonItems (getOpt (getOpt (getOpt d ''resources'') ''results'') ''products'')))
      | _ \<Rightarrow> [])"

definition asosUpstream :: "platform \<Rightarrow> jstring \<Rightarrow> jsval list" where
  \<comment> \<open>the items of the ASOS response: the array at \<open>products\<close>\<close>
  "asosUpstream env query =
     (case bindE (asosUrl query) (fetchJSON env) of
        Inl e \<Rightarrow> []
      | Inr d \<Rightarrow> jsonItems (getOpt d ''products''))"

definition scriptsOf :: "platform \<Rightarrow> error + jstring \<Rightarrow> string \<Rightarrow> jstring option list" where
  \<comment> \<open>the scripts of the page behind a URL that a selector finds, in document order\<close>
  "scriptsOf env url sel =
     (case bindE url (fetchHTML env) of Inl e \<Rightarrow> [] | Inr page \<Rightarrow> selectHtml env sel page)"

definition parsedItems :: "platform \<Rightarrow> jstring \<Rightarrow> jsval list" where
  \<comment> \<open>the elements of the array a text parses to, nothing when it does not parse\<close>
  "parsedItems env text = (case bindE (parseJSON env text) iterate of Inl e \<Rightarrow> [] | Inr xs \<Rightarrow> xs)"

definition hmScriptItems :: "platform \<Rightarrow> jstring \<Rightarrow> jsval list" where
  \<comment> \<open>the items of the embedded product array of one script of the H&M page\<close>
  "hmScriptItems env text =
     (if str_includes text (js ''productArticleDetails'') \<or> str_includes text (quoted ''products'')
      then (case hmMatch text of None \<Rightarrow> [] | Some g \<Rightarrow> parsedItems env g)
      else [])"

definition hmUpstream :: "platform \<Rightarrow> jstring \<Rightarrow> jsval list" where
  \<comment> \<open>the items of the H&M page, script after script\<close>
  "hmUpstream env query =
     concat (map (\<lambda>h. hmScriptItems env (htmlOrEmpty h)) (scriptsOf env (hmUrl query) ''script''))"

definition sheinScriptItems :: "platform \<Rightarrow> jstring \<Rightarrow> jsval list" where
  \<comment> \<open>the items of the embedded arrays of one script of the SHEIN page, array after array\<close>
  "sheinScriptItems env text =
     (if str_includes text (js ''productListData'') \<or> str_includes text (js ''goods_id'')
      then
        (let byId = sheinMatches ''goods_id'' text
         in concat (map (parsedItems env)
                      (if byId \<noteq> [] then byId else sheinMatches ''goods_sn'' text)))
      else [])"

definition sheinUpstream :: "platform \<Rightarrow> jstring \<Rightarrow> jsval list" where
  "sheinUpstream env query =
     concat (map (\<lambda>h. sheinScriptItems env (htmlOrEmpty h))
               (scriptsOf env (sheinUrl query) ''script''))"

definition lulusUpstream :: "platform \<Rightarrow> jstring \<Rightarrow> string \<Rightarrow> card list" where
  \<comment> \<open>the elements of the Lulus page that a selector finds, in document order\<close>
  "lulusUpstream env query sel =
     (case bindE (lulusUrl query) (fetchHTML env) of
        Inl e \<Rightarrow> []
      | Inr page \<Rightarrow> selectCards env sel page)"

definition nordstromParsed :: "platform \<Rightarrow> jstring option \<Rightarrow> jsval" where
  \<comment> \<open>the record of products in one script of the Nordstrom page, \<open>{}\<close> when the script
      does not parse\<close>
  "nordstromParsed env h =
     (case (case h of None \<Rightarrow> Inr JNull | Some s \<Rightarrow> parseJSON env s) of
        Inl e \<Rightarrow> JObj []
      | Inr d \<Rightarrow> nordstromSearchResults d)"

definition nordstromValues :: "platform \<Rightarrow> jstring \<Rightarrow> jsval list" where
  \<comment> \<open>the items of the Nordstrom page in the order of \<open>Object.values\<close>, script after
      script\<close>
  "nordstromValues env query =
     concat (map (\<lambda>h. objectValues (nordstromParsed env h))
               (scriptsOf env (nordstromUrl query)
                  ''script#__NEXT_DATA__, script[type=\"application/json\"]''))"

definition fromCard :: "platform \<Rightarrow> card \<Rightarrow> product \<Rightarrow> bool" where
  \<comment> \<open>the callback of the Lulus adapter pushes this product for this element\<close>
  "fromCard env el p \<longleftrightarrow>
     (\<exists>ps i. lulusCard env ps (i, el) = Inr (ps @ [Some p]))"

section \<open>Properties of the field normalizers\<close>



















lemmas eval_defs =
  js_def Let_def isWhiteSpace_def isDigit_def isLineTerminator_def asciiUpper_def asciiLower_def
  toLowerCase_def ciEq_def trimStart_def trimEnd_def trim_def digitsVal_def
  isCurrencySymbol_def startsWithCurrencySymbol_def isDigitOrComma_def matchPriceAt_def
  priceNumVal_def parseFloat_def exponentPart_def extractPrice_def
  numGreater_def numLess_def numIsNaN_def numIsInteger_def numDiv100_def numTruthy_def
  truthy_def typeof_def orElse_def nullish_def coalesce_def bindE_def call_trim_def
  cleanPrice_def isNewlineOrTab_def promoPrefixes_def isPromoSeparator_def promoPrefix_def
  stripPromo_def UNKNOWN_PRODUCT_def cleanTitleMax_def cleanTitle_def







lemma truthy_string_cases:
  "\<not> (\<not> truthy v \<or> typeof v \<noteq> js ''string'') \<Longrightarrow> \<exists>s. v = JStr s"
  by (cases v) (simp_all add: typeof_def js_def)

lemma cleanPrice_cases:
  "cleanPrice v = Inr JNull \<or> (\<exists>s. s \<noteq> [] \<and> cleanPrice v = Inr (JStr s))"
proof (cases "\<not> truthy v \<or> typeof v \<noteq> js ''string''")
  case True
  then show ?thesis by (simp add: cleanPrice_def)
next
  case False
  then obtain t where t: "v = JStr t" using truthy_string_cases by blast
  show ?thesis
  proof (cases "extractPrice (trim t)")
    case None
    with False t show ?thesis by (simp add: cleanPrice_def call_trim_def bindE_def)
  next
    case (Some p)
    then have "p \<noteq> []"
      by (auto simp: extractPrice_def Let_def startsWithCurrencySymbol_def js_def
          split: if_splits option.splits list.splits)
    with Some False t show ?thesis
      by (simp add: cleanPrice_def call_trim_def bindE_def Let_def)
  qed
qed

lemma cleanTitle_string: "\<exists>s. cleanTitle v = Inr (JStr s)"
proof (cases "\<not> truthy v \<or> typeof v \<noteq> js ''string''")
  case True
  then show ?thesis by (simp add: cleanTitle_def cleanTitleMax_def)
next
  case False
  then obtain s where "v = JStr s" using truthy_string_cases by blast
  with False show ?thesis
    by (simp add: cleanTitle_def cleanTitleMax_def call_trim_def bindE_def Let_def)
qed

lemma cleanImageUrl_returns:
  "\<exists>r. cleanImageUrl env v = Inr r \<and> (r = JNull \<or> (\<exists>s. r = JStr s))"
proof (cases "\<not> truthy v \<or> typeof v \<noteq> js ''string''")
  case True
  then show ?thesis by (simp add: cleanImageUrl_def)
next
  case False
  then obtain s where "v = JStr s" using truthy_string_cases by blast
  with False show ?thesis
    by (simp add: cleanImageUrl_def call_trim_def bindE_def Let_def split: sum.splits)
qed

text \<open>
  C5. Each field normalizer is total: on a value of any shape (\<open>null\<close>, \<open>undefined\<close>, a
  boolean, a number, an array, an object, any string) \<open>cleanPrice\<close> and \<open>cleanImageUrl\<close>
  return \<open>null\<close> or a string and \<open>cleanTitle\<close> returns a string; none of them throws
  (no result is an \<open>Inl\<close>).
\<close>

theorem normalizers_total:
  "(\<exists>r. cleanPrice v = Inr r \<and> (r = JNull \<or> (\<exists>s. r = JStr s)))
   \<and> (\<exists>s. cleanTitle v = Inr (JStr s))
   \<and> (\<exists>r. cleanImageUrl env v = Inr r \<and> (r = JNull \<or> (\<exists>s. r = JStr s)))"
  using cleanPrice_cases [of v] cleanTitle_string [of v] cleanImageUrl_returns [of env v]
  by blast

theorem normalizers_total_witness:
  "(\<exists>r. cleanPrice (JNum (Dec False 2999 (- 2))) = Inr r \<and> (r = JNull \<or> (\<exists>s. r = JStr s)))
   \<and> (\<exists>s. cleanTitle JNull = Inr (JStr s))
   \<and> (\<exists>r. cleanImageUrl examplePlatform (JArr []) = Inr r \<and> (r = JNull \<or> (\<exists>s. r = JStr s)))"
proof -
  have a: "\<exists>r. cleanPrice (JNum (Dec False 2999 (- 2))) = Inr r \<and> (r = JNull \<or> (\<exists>s. r = JStr s))"
    using normalizers_total [of "JNum (Dec False 2999 (- 2))" examplePlatform] by blast
  have b: "\<exists>s. cleanTitle JNull = Inr (JStr s)"
    using normalizers_total [of JNull examplePlatform] by blast
  have c: "\<exists>r. cleanImageUrl examplePlatform (JArr []) = Inr r \<and> (r = JNull \<or> (\<exists>s. r = JStr s))"
    using normalizers_total [of "JArr []" examplePlatform] by blast
  from a b c show ?thesis by blast
qed

section \<open>Properties of the formatter\<close>

text \<open>
  C3, amended. For every candidate that \<open>formatProduct\<close> turns into a product, the
  product's \<open>price\<close> is the output of \<open>cleanPrice\<close> when that is a string; when
  \<open>cleanPrice\<close> returns \<open>null\<close> it is the raw price value itself if that is truthy,
  and the sentinel \<open>See price\<close> only if the raw price is falsy.
\<close>

theorem formatProduct_price:
  "formatProduct env newId d sName sId = Inr (Some p) \<Longrightarrow>
     (\<exists>s. s \<noteq> [] \<and> cleanPrice (raw_price d) = Inr (JStr s) \<and> price p = JStr s)
     \<or> (cleanPrice (raw_price d) = Inr JNull \<and> truthy (raw_price d) \<and> price p = raw_price d)
     \<or> (cleanPrice (raw_price d) = Inr JNull \<and> \<not> truthy (raw_price d)
         \<and> price p = JStr (js ''See price''))"
proof -
  assume fp: "formatProduct env newId d sName sId = Inr (Some p)"
  obtain t where t: "cleanTitle (raw_title d) = Inr (JStr t)"
    using cleanTitle_string [of "raw_title d"] by blast
  obtain i where i: "cleanImageUrl env (raw_image d) = Inr i"
    using cleanImageUrl_returns [of env "raw_image d"] by blast
  from cleanPrice_cases [of "raw_price d"] show ?thesis
  proof
    assume n: "cleanPrice (raw_price d) = Inr JNull"
    with fp t i have "price p = orElse JNull (orElse (raw_price d) (JStr (js ''See price'')))"
      by (auto simp: formatProduct_def bindE_def split: if_splits)
    with n show ?thesis by (simp add: orElse_def truthy_def)
  next
    assume "\<exists>s. s \<noteq> [] \<and> cleanPrice (raw_price d) = Inr (JStr s)"
    then obtain s where s: "s \<noteq> []" "cleanPrice (raw_price d) = Inr (JStr s)" by blast
    with fp t i have "price p = orElse (JStr s) (orElse (raw_price d) (JStr (js ''See price'')))"
      by (auto simp: formatProduct_def bindE_def split: if_splits)
    with s show ?thesis by (simp add: orElse_def truthy_def)
  qed
qed

text \<open>
  C3, as stated, fails: a candidate whose raw price is the text \<open>Call for price\<close> (which
  \<open>cleanPrice\<close> maps to \<open>null\<close>) becomes a product whose \<open>price\<close> is that raw text.
\<close>

theorem formatProduct_price_counterexample:
  "cleanPrice (JStr (js ''Call for price'')) = Inr JNull
   \<and> formatProduct examplePlatform (js ''prod_1'') callForPrice (js ''Vici'') (js ''vici'') =
       Inr (Some \<lparr>product_id = js ''prod_1'', store = js ''vici'', storeName = js ''Vici'',
                  title = JStr (js ''Linen Dress''), price = JStr (js ''Call for price''),
                  image_url = JStr PLACEHOLDER_IMAGE, link = JStr (js ''https://shop.example/p/1'')\<rparr>)"
  by (simp add: eval_defs formatProduct_def callForPrice_def cleanImageUrl_def)

theorem formatProduct_price_witness:
  "formatProduct examplePlatform (js ''prod_1'') callForPrice (js ''Vici'') (js ''vici'') =
       Inr (Some \<lparr>product_id = js ''prod_1'', store = js ''vici'', storeName = js ''Vici'',
                  title = JStr (js ''Linen Dress''), price = JStr (js ''Call for price''),
                  image_url = JStr PLACEHOLDER_IMAGE, link = JStr (js ''https://shop.example/p/1'')\<rparr>)
   \<and> cleanPrice (raw_price callForPrice) = Inr JNull
   \<and> truthy (raw_price callForPrice)
   \<and> JStr (js ''Call for price'') = raw_price callForPrice"
proof -
  have fp: "formatProduct examplePlatform (js ''prod_1'') callForPrice (js ''Vici'') (js ''vici'') =
       Inr (Some \<lparr>product_id = js ''prod_1'', store = js ''vici'', storeName = js ''Vici'',
                  title = JStr (js ''Linen Dress''), price = JStr (js ''Call for price''),
                  image_url = JStr PLACEHOLDER_IMAGE, link = JStr (js ''https://shop.example/p/1'')\<rparr>)"
    by (simp add: eval_defs formatProduct_def callForPrice_def cleanImageUrl_def)
  have tr: "truthy (raw_price callForPrice)" by (simp add: callForPrice_def truthy_def js_def)
  have ne: "JStr (js ''Call for price'') \<noteq> JStr (js ''See price'')" by (simp add: js_def)
  have cp: "cleanPrice (JStr (js ''Call for price'')) = Inr JNull" by (simp add: eval_defs)
  from formatProduct_price [OF fp] tr ne cp
  have "cleanPrice (raw_price callForPrice) = Inr JNull
        \<and> JStr (js ''Call for price'') = raw_price callForPrice"
    by (auto simp: callForPrice_def)
  with fp tr show ?thesis by simp
qed

section \<open>Title normalization twice\<close>

lemma singleSpaced_tl: "singleSpaced (c # cs) \<Longrightarrow> singleSpaced cs"
  by (cases cs) auto

lemma singleSpaced_drop: "singleSpaced s \<Longrightarrow> singleSpaced (drop n s)"
proof (induction n arbitrary: s)
  case 0
  then show ?case by simp
next
  case (Suc n)
  then show ?case by (cases s) (auto dest: singleSpaced_tl)
qed

lemma singleSpaced_take: "singleSpaced s \<Longrightarrow> singleSpaced (take n s)"
proof (induction s arbitrary: n rule: singleSpaced.induct)
  case 1
  then show ?case by simp
next
  case (2 c)
  then show ?case by (cases n) auto
next
  case (3 c d cs)
  show ?case
  proof (cases n)
    case 0
    then show ?thesis by simp
  next
    case (Suc k)
    have ih: "singleSpaced (take k (d # cs))" using 3 by simp
    show ?thesis
    proof (cases k)
      case 0
      with Suc 3 show ?thesis by simp
    next
      case (Suc j)
      with \<open>n = Suc k\<close> ih 3 show ?thesis by simp
    qed
  qed
qed

lemma singleSpaced_dropWhile: "singleSpaced s \<Longrightarrow> singleSpaced (dropWhile P s)"
  by (simp add: dropWhile_eq_drop singleSpaced_drop)

lemma trimEnd_take: "trimEnd s = take (length s - length (takeWhile isWhiteSpace (rev s))) s"
  by (simp add: trimEnd_def dropWhile_eq_drop rev_drop)

lemma singleSpaced_trim: "singleSpaced s \<Longrightarrow> singleSpaced (trim s)"
  by (simp add: trim_def trimEnd_take trimStart_def singleSpaced_take singleSpaced_dropWhile)

lemma singleSpaced_only_space: "singleSpaced s \<Longrightarrow> c \<in> set s \<Longrightarrow> isWhiteSpace c \<Longrightarrow> c = 32"
  by (induction s rule: singleSpaced.induct) auto

lemma singleSpaced_append:
  "singleSpaced xs \<Longrightarrow> singleSpaced ys \<Longrightarrow> ys = [] \<or> \<not> isWhiteSpace (hd ys)
   \<Longrightarrow> singleSpaced (xs @ ys)"
proof (induction xs rule: singleSpaced.induct)
  case 1
  then show ?case by simp
next
  case (2 c)
  then show ?case by (cases ys) auto
next
  case (3 c d cs)
  then show ?case by simp
qed

lemma replaceRuns_head:
  "\<not> P c \<Longrightarrow> replaceRuns P r (c # cs) = c # replaceRuns P r cs"
  by simp

lemma replaceRuns_none: "\<forall>c \<in> set s. \<not> P c \<Longrightarrow> replaceRuns P r s = s"
  by (induction s) auto

lemma dropWhile_head: "dropWhile P s = [] \<or> \<not> P (hd (dropWhile P s))"
  using hd_dropWhile by blast

lemma replaceRuns_starts:
  "s = [] \<or> \<not> isWhiteSpace (hd s)
   \<Longrightarrow> replaceRuns isWhiteSpace [32] s = [] \<or> \<not> isWhiteSpace (hd (replaceRuns isWhiteSpace [32] s))"
  by (cases s) auto

lemma singleSpaced_replaceRuns: "singleSpaced (replaceRuns isWhiteSpace [32] s)"
proof (induction "isWhiteSpace" "[32::nat]" s rule: replaceRuns.induct)
  case 1
  then show ?case by simp
next
  case (2 c cs)
  show ?case
  proof (cases "isWhiteSpace c")
    case True
    let ?rest = "replaceRuns isWhiteSpace [32] (dropWhile isWhiteSpace cs)"
    have ss: "singleSpaced ?rest" using 2 True by simp
    have st: "?rest = [] \<or> \<not> isWhiteSpace (hd ?rest)"
      using replaceRuns_starts [OF dropWhile_head] .
    have "singleSpaced ([32] @ ?rest)"
      by (rule singleSpaced_append) (use ss st in simp_all)
    with True show ?thesis by simp
  next
    case False
    let ?rest = "replaceRuns isWhiteSpace [32] cs"
    have ss: "singleSpaced ?rest" using 2 False by simp
    have "singleSpaced (c # ?rest)" using ss False by (cases ?rest) auto
    with False show ?thesis by simp
  qed
qed

lemma replaceRuns_fixed: "singleSpaced s \<Longrightarrow> replaceRuns isWhiteSpace [32] s = s"
proof (induction s rule: singleSpaced.induct)
  case 1
  then show ?case by simp
next
  case (2 c)
  then show ?case by auto
next
  case (3 c d cs)
  then show ?case by auto
qed

lemma newlineOrTab_whiteSpace: "isNewlineOrTab c \<Longrightarrow> isWhiteSpace c \<and> c \<noteq> 32"
  by (auto simp: isNewlineOrTab_def isWhiteSpace_def)

lemma replaceRuns_newline_fixed: "singleSpaced s \<Longrightarrow> replaceRuns isNewlineOrTab [32] s = s"
  using singleSpaced_only_space newlineOrTab_whiteSpace
  by (intro replaceRuns_none) blast

lemma trimmed_trim: "trimmed (trim s)"
proof -
  define a where "a = trimStart s"
  define b where "b = trimEnd a"
  have a: "a = [] \<or> \<not> isWhiteSpace (hd a)"
    unfolding a_def trimStart_def by (rule dropWhile_head)
  have l: "b = [] \<or> \<not> isWhiteSpace (last b)"
    using dropWhile_head [of isWhiteSpace "rev a"]
    unfolding b_def trimEnd_def by (auto simp: last_rev)
  have bt: "b = take (length a - length (takeWhile isWhiteSpace (rev a))) a"
    unfolding b_def by (rule trimEnd_take)
  have h: "b \<noteq> [] \<Longrightarrow> hd b = hd a \<and> a \<noteq> []"
  proof -
    assume ne: "b \<noteq> []"
    with bt have "0 < length a - length (takeWhile isWhiteSpace (rev a))" and "a \<noteq> []"
      by (cases "length a - length (takeWhile isWhiteSpace (rev a))"; force)+
    with bt show ?thesis by (metis hd_take)
  qed
  have "trim s = b" by (simp add: trim_def a_def b_def)
  with a l h show ?thesis unfolding trimmed_def by metis
qed

lemma trim_fixed: "trimmed s \<Longrightarrow> trim s = s"
proof (cases "s = []")
  case True
  then show ?thesis by (simp add: trim_def trimEnd_def trimStart_def)
next
  case False
  assume "trimmed s"
  with False have h: "\<not> isWhiteSpace (hd s)" and l: "\<not> isWhiteSpace (last s)"
    by (auto simp: trimmed_def)
  from h False have a: "dropWhile isWhiteSpace s = s" by (cases s) auto
  from l False have "\<not> isWhiteSpace (hd (rev s))" by (simp add: hd_rev)
  with False have "dropWhile isWhiteSpace (rev s) = rev s" by (cases "rev s") auto
  with a show ?thesis by (simp add: trim_def trimEnd_def trimStart_def)
qed

lemma ciPrefix_length: "ciPrefix a s \<Longrightarrow> length a \<le> length s"
  by (induction a s rule: ciPrefix.induct) auto

lemma promoPrefix_Some:
  "promoPrefix s = Some a \<Longrightarrow> a \<noteq> [] \<and> length a \<le> length s"
proof -
  assume "promoPrefix s = Some a"
  then have "a \<in> set promoPrefixes" and "ciPrefix a s"
    unfolding promoPrefix_def by (auto simp: find_Some_iff)
  moreover have "\<forall>x \<in> set promoPrefixes. x \<noteq> []" by (simp add: promoPrefixes_def js_def)
  ultimately show ?thesis using ciPrefix_length by blast
qed

lemma length_trim_le: "length (trim s) \<le> length s"
proof -
  have "length (trim s) \<le> length (trimStart s)"
    by (simp add: trim_def trimEnd_take)
  also have "\<dots> \<le> length s" by (simp add: trimStart_def length_dropWhile_le)
  finally show ?thesis .
qed

lemma stripPromo_shorter:
  "promoPrefix s = Some a \<Longrightarrow> length (trim (stripPromo s)) < length s"
proof -
  assume p: "promoPrefix s = Some a"
  then have "a \<noteq> []" and "length a \<le> length s" using promoPrefix_Some by blast+
  then have "length (drop (length a) s) < length s" by (cases a) auto
  moreover have "length (dropWhile isPromoSeparator (drop (length a) s)) \<le> length (drop (length a) s)"
    by (rule length_dropWhile_le)
  moreover have "length (trim (stripPromo s)) \<le> length (stripPromo s)" by (rule length_trim_le)
  ultimately show ?thesis using p by (simp add: stripPromo_def)
qed

lemma singleSpaced_stripPromo: "singleSpaced s \<Longrightarrow> singleSpaced (stripPromo s)"
  by (simp add: stripPromo_def singleSpaced_dropWhile singleSpaced_drop split: option.splits)

text \<open>The second pass over a text that the first pass could have produced.\<close>

lemma cleanTitle_on_clean:
  assumes ss: "singleSpaced s" and tr: "trimmed s" and len: "length s \<le> 120"
  shows "(cleanTitle (JStr s) = Inr (JStr s)) = (s \<noteq> [] \<and> promoPrefix s = None)"
proof (cases "s = []")
  case True
  then show ?thesis
    by (simp add: cleanTitle_def cleanTitleMax_def truthy_def UNKNOWN_PRODUCT_def js_def)
next
  case False
  have c1: "trim s = s" using tr by (rule trim_fixed)
  have c2: "replaceRuns isNewlineOrTab (js '' '') s = s"
    using replaceRuns_newline_fixed [OF ss] by (simp add: js_def)
  have c3: "replaceRuns isWhiteSpace (js '' '') s = s"
    using replaceRuns_fixed [OF ss] by (simp add: js_def)
  have second: "cleanTitle (JStr s) =
      (if length (trim (stripPromo s)) > 120
       then Inr (JStr (take 117 (trim (stripPromo s)) @ js ''...''))
       else Inr (JStr (trim (stripPromo s))))"
    using False c1 c2 c3
    by (simp add: cleanTitle_def cleanTitleMax_def truthy_def typeof_def call_trim_def
        bindE_def Let_def)
  show ?thesis
  proof (cases "promoPrefix s")
    case None
    then have "trim (stripPromo s) = s" using c1 by (simp add: stripPromo_def)
    with second len None False show ?thesis by simp
  next
    case (Some a)
    then have sh: "length (trim (stripPromo s)) < length s" by (rule stripPromo_shorter)
    with len have "\<not> length (trim (stripPromo s)) > 120" by simp
    with second have "cleanTitle (JStr s) = Inr (JStr (trim (stripPromo s)))" by simp
    moreover have "trim (stripPromo s) \<noteq> s" using sh by auto
    ultimately show ?thesis using Some by simp
  qed
qed

lemma first_pass_clean:
  assumes "cleanTitle (JStr t) = Inr (JStr s)"
  shows "singleSpaced s \<and> trimmed s \<and> length s \<le> 120"
proof (cases "t = []")
  case True
  with assms have "s = UNKNOWN_PRODUCT"
    by (simp add: cleanTitle_def cleanTitleMax_def truthy_def)
  then show ?thesis
    by (simp add: UNKNOWN_PRODUCT_def js_def trimmed_def isWhiteSpace_def)
next
  case False
  define c where "c = trim (stripPromo (replaceRuns isWhiteSpace (js '' '')
                          (replaceRuns isNewlineOrTab (js '' '') (trim t))))"
  have ssc: "singleSpaced c"
    unfolding c_def
    using singleSpaced_replaceRuns [of "replaceRuns isNewlineOrTab (js '' '') (trim t)"]
    by (intro singleSpaced_trim singleSpaced_stripPromo) (simp add: js_def)
  have trc: "trimmed c" unfolding c_def by (rule trimmed_trim)
  have first: "cleanTitle (JStr t) =
      (if length c > 120 then Inr (JStr (take 117 c @ js ''...'')) else Inr (JStr c))"
    using False
    by (simp add: cleanTitle_def cleanTitleMax_def truthy_def typeof_def call_trim_def
        bindE_def Let_def c_def)
  show ?thesis
  proof (cases "length c > 120")
    case False
    with first assms have "s = c" by simp
    with ssc trc False show ?thesis by simp
  next
    case True
    with first assms have s: "s = take 117 c @ js ''...''" by simp
    have dots: "singleSpaced (js ''...'')" "\<not> isWhiteSpace (hd (js ''...''))"
      by (simp_all add: js_def isWhiteSpace_def)
    have a: "singleSpaced s"
      unfolding s using dots by (intro singleSpaced_append singleSpaced_take ssc) simp_all
    from True have cne: "c \<noteq> []" by auto
    with trc have "\<not> isWhiteSpace (hd c)" by (simp add: trimmed_def)
    moreover have "hd s = hd c" unfolding s using cne by (cases c) simp_all
    moreover have "last s = 46" unfolding s by (simp add: js_def)
    moreover have "\<not> isWhiteSpace 46" by (simp add: isWhiteSpace_def)
    ultimately have b: "trimmed s" by (simp add: trimmed_def)
    have "length s = 120" unfolding s using True by (simp add: js_def)
    with a b show ?thesis by simp
  qed
qed

text \<open>
  C4, amended. For every string \<open>t\<close>, with \<open>s\<close> the title \<open>cleanTitle\<close> makes of it:
  a second pass returns \<open>s\<close> unchanged exactly when \<open>s\<close> is not empty and does not
  itself start with a promotional prefix (\<open>new\<close>, \<open>sale\<close>, \<open>hot\<close>, \<open>best seller\<close>, in any
  letter case). In that case nothing is truncated again: the result of a first pass has
  at most 120 characters.
\<close>

theorem cleanTitle_second_pass:
  "cleanTitle (JStr t) = Inr (JStr s) \<Longrightarrow>
     (cleanTitle (JStr s) = Inr (JStr s)) = (s \<noteq> [] \<and> promoPrefix s = None)"
  using first_pass_clean [of t s] cleanTitle_on_clean [of s] by blast

text \<open>
  C4, as stated, fails: the pattern strips one promotional prefix, so a title that
  carries two of them loses the second one in the second pass.
\<close>

theorem cleanTitle_idempotent_counterexample:
  "cleanTitle (JStr (js ''new new dress'')) = Inr (JStr (js ''new dress''))
   \<and> cleanTitle (JStr (js ''new dress'')) = Inr (JStr (js ''dress''))"
  by (simp add: eval_defs)

theorem cleanTitle_second_pass_witness:
  "cleanTitle (JStr (js ''  SALE: - Red   dress  '')) = Inr (JStr (js ''Red dress''))
   \<and> cleanTitle (JStr (js ''Red dress'')) = Inr (JStr (js ''Red dress''))
   \<and> js ''Red dress'' \<noteq> [] \<and> promoPrefix (js ''Red dress'') = None"
proof -
  have a: "cleanTitle (JStr (js ''  SALE: - Red   dress  '')) = Inr (JStr (js ''Red dress''))"
    by (simp add: eval_defs)
  have b: "js ''Red dress'' \<noteq> [] \<and> promoPrefix (js ''Red dress'') = None"
    by (simp add: eval_defs)
  from cleanTitle_second_pass [OF a] b
  have "cleanTitle (JStr (js ''Red dress'')) = Inr (JStr (js ''Red dress''))" by blast
  with a b show ?thesis by blast
qed

section \<open>Concrete runs\<close>

lemma digits10_small: "n < 10 \<Longrightarrow> digits10 n = [48 + n]"
  by (simp add: digits10.simps)
lemma digits10_large: "\<not> n < 10 \<Longrightarrow> digits10 n = digits10 (n div 10) @ [48 + n mod 10]"
  by (subst digits10.simps) simp
lemma stripZeros_step: "m \<noteq> 0 \<Longrightarrow> m mod 10 = 0 \<Longrightarrow> stripZeros m e = stripZeros (m div 10) (e + 1)"
  by (subst stripZeros.simps) simp
lemma stripZeros_stop: "m = 0 \<or> m mod 10 \<noteq> 0 \<Longrightarrow> stripZeros m e = (m, e)"
  by (subst stripZeros.simps) auto
lemmas num_eval = digits10_small digits10_large stripZeros_step stripZeros_stop
  numberToString_def toFixed2_def signPrefix_def

lemmas adapter_defs =
  MAX_RESULTS_def lookupConfig_def STORE_CONFIG_def shopify_def api_def objectPrototypeNames_def
  isUnreserved_def hexDigit_def percentByte_def utf8_def isLeadSurrogate_def isTrailSurrogate_def
  axiosGet_def fetchJSON_def fetchHTML_def sliceForMap_def imageExtensions_def matchExtension_def
  matchSizeSuffix_def shopifyImage_def shopifyPrice_def shopifyItem_def formatAll_def catchAll_def
  shopifyUrl_def scrapeShopifyStore_def getProp_def getOpt_def formatProduct_def cleanImageUrl_def
  validProduct_def filterValidProducts_def
  PLACEHOLDER_IMAGE_def





lemma image_up: "shopifyImage (dressItem t pr) = Inr (JStr (js ''https://cdn.example/a_600x.jpg?v=3''))"
  by (simp add: eval_defs adapter_defs dressItem_def)

lemma vici_run:
  "scrapeShopifyStore shopifyPlatform (js ''red dress'') (js ''vici'') =
     [dressProduct ''prod_0'' ''Dress A'' ''$1.50'', dressProduct ''prod_1'' ''Dress B'' ''$150.00'']"
  by (simp add: eval_defs adapter_defs num_eval
      shopifyPlatform_def examplePlatform_def suggestResponse_def dressItem_def dressProduct_def)



lemma bindE_Inr: "bindE m f = Inr y \<Longrightarrow> \<exists>x. m = Inr x \<and> f x = Inr y"
  by (cases m) (simp_all add: bindE_def)

lemma mapE_Inr: "mapE f xs = Inr ys \<Longrightarrow> list_all2 (\<lambda>x y. f x = Inr y) xs ys"
proof (induction xs arbitrary: ys)
  case Nil
  then show ?case by simp
next
  case (Cons x xs)
  from Cons.prems obtain y ys' where "f x = Inr y" "mapE f xs = Inr ys'" "ys = y # ys'"
    by (cases "f x"; cases "mapE f xs") (auto simp: bindE_def)
  with Cons.IH [of ys'] show ?case by simp
qed

lemma mapE_all_Inr: "\<forall>x \<in> set xs. f x = Inr (g x) \<Longrightarrow> mapE f xs = Inr (map g xs)"
  by (induction xs) (simp_all add: bindE_def)

lemma handlerWith_search:
  assumes "handlerWith run env req = Inr r" and "reply_body r = SearchBody sr"
  shows "\<exists>b ids rs.
           req_body req = Some b \<and> req_stores b = StoreIds ids
           \<and> resp_query sr = sanitize (queryText (req_query b))
           \<and> mapE (\<lambda>storeId. settle storeId (run storeId (resp_query sr)))
                 (filter (\<lambda>storeId. lookupConfig storeId \<noteq> Absent) ids) = Inr rs
           \<and> resp_stores sr = map storeResult rs \<and> reply_status r = 200"
  using assms
  by (auto simp: handlerWith_def respond_def Let_def
      split: if_splits option.splits stores_field.splits sum.splits)

lemma storeResult_count: "sr_count (storeResult x) = length (sr_results (storeResult x))"
  by (cases x) (simp add: storeResult_def)


lemmas handler_defs =
  handler_def handlerWith_def respond_def sanitize_def validQuery_def queryText_def settle_def
  storeDisplayName_def storeResult_def searchStore_def corsHeaders_def

lemma sanitize_red_dress: "sanitize (queryText (JStr (js ''red dress''))) = js ''red dress''"
  by (simp add: eval_defs handler_defs)

lemma lookup_vici:
  "lookupConfig (js ''vici'') = Config (shopify ''Vici'' ''www.vicicollection.com'')"
  by (simp add: eval_defs adapter_defs)


lemma display_vici: "storeDisplayName (js ''vici'') = js ''Vici''"
  by (simp add: storeDisplayName_def lookup_vici shopify_def) (simp add: js_def)

lemma handler_vici: "handler shopifyPlatform (searchRequest [js ''vici'']) = Inr viciReply"
proof -
  have "validQuery (JStr (js ''red dress''))" by (simp add: eval_defs handler_defs)
  moreover have "now shopifyPlatform = js ''2024-01-01T00:00:00.000Z''"
    by (simp add: shopifyPlatform_def examplePlatform_def)
  moreover have "searchStore shopifyPlatform (js ''vici'') (js ''red dress'') =
      [dressProduct ''prod_0'' ''Dress A'' ''$1.50'', dressProduct ''prod_1'' ''Dress B'' ''$150.00'']"
    using vici_run by (simp add: searchStore_def lookup_vici shopify_def)
  moreover have "storeDisplayName (js ''vici'') = js ''Vici''"
    by (rule display_vici)
  moreover have "js ''POST'' \<noteq> js ''OPTIONS''" by (simp add: js_def)
  ultimately show ?thesis
    by (simp add: handler_def handlerWith_def searchRequest_def sanitize_red_dress lookup_vici
        settle_def storeResult_def bindE_def viciReply_def orElse_def truthy_def numeral_2_eq_2)
qed



section \<open>Properties of the router and the handler\<close>

lemma settle_fulfilled: "settle storeId (Inr results) = Inr (storeId, results, None)"
  by (simp add: settle_def)

lemma handler_stores:
  assumes "handler env req = Inr r" and "reply_body r = SearchBody sr"
  shows "\<exists>ids. resp_stores sr =
           map (\<lambda>storeId. storeResult (storeId, searchStore env storeId (resp_query sr), None)) ids
         \<and> reply_status r = 200"
proof -
  from handlerWith_search [OF assms(1) [unfolded handler_def] assms(2)]
  obtain b ids rs where
    m: "mapE (\<lambda>storeId. settle storeId (Inr (searchStore env storeId (resp_query sr))))
          (filter (\<lambda>storeId. lookupConfig storeId \<noteq> Absent) ids) = Inr rs"
    and st: "resp_stores sr = map storeResult rs" and ok: "reply_status r = 200"
    by blast
  let ?ids = "filter (\<lambda>storeId. lookupConfig storeId \<noteq> Absent) ids"
  have "mapE (\<lambda>storeId. settle storeId (Inr (searchStore env storeId (resp_query sr)))) ?ids
        = Inr (map (\<lambda>storeId. (storeId, searchStore env storeId (resp_query sr), None)) ?ids)"
    by (rule mapE_all_Inr) (simp add: settle_fulfilled)
  with m have "rs = map (\<lambda>storeId. (storeId, searchStore env storeId (resp_query sr), None)) ?ids"
    by simp
  with st ok show ?thesis by (auto simp: comp_def)
qed

text \<open>
  C10. In every Store Result of a Search Response the \<open>count\<close> field is the length of
  that store's \<open>results\<close> list, however the per-store tasks settle (the handler of the
  source is \<open>handlerWith\<close> over the \<open>searchStore\<close> tasks).
\<close>

theorem count_is_length:
  "handlerWith run env req = Inr r \<Longrightarrow> reply_body r = SearchBody sr \<Longrightarrow>
     \<forall>x \<in> set (resp_stores sr). sr_count x = length (sr_results x)"
  using handlerWith_search [of run env req r sr] storeResult_count by auto

theorem count_is_length_witness:
  "handlerWith (\<lambda>storeId query. Inr (searchStore shopifyPlatform storeId query)) shopifyPlatform
     (searchRequest [js ''vici'']) = Inr viciReply
   \<and> sr_count (hd (resp_stores (case reply_body viciReply of SearchBody sr \<Rightarrow> sr))) = 2
   \<and> length (sr_results (hd (resp_stores (case reply_body viciReply of SearchBody sr \<Rightarrow> sr)))) = 2"
proof -
  have run: "handlerWith (\<lambda>storeId query. Inr (searchStore shopifyPlatform storeId query))
      shopifyPlatform (searchRequest [js ''vici'']) = Inr viciReply"
    using handler_vici by (simp add: handler_def)
  obtain sr where sr: "reply_body viciReply = SearchBody sr"
    and hd: "hd (resp_stores sr) \<in> set (resp_stores sr)"
    and two: "length (sr_results (hd (resp_stores sr))) = 2"
    by (simp add: viciReply_def respond_def)
  from count_is_length [OF run sr] hd two have "sr_count (hd (resp_stores sr)) = 2" by simp
  with run sr two show ?thesis by simp
qed

text \<open>
  C1. For a POST request whose \<open>stores\<close> list holds known store ids only: when the
  request passes the validation (a query that is not blank, a list that is not empty)
  and every task that rejects does so with an Error, the handler answers 200 with a
  Search Response; and whenever it answers with a Search Response, this has one Store
  Result per requested store, in request order, and each Store Result is determined by
  the outcome of its own task alone: \<open>results\<close> as returned and \<open>error\<close> null for a task
  that returned, no results and the rejection's message as \<open>error\<close> for a task that
  rejected.
\<close>

theorem handler_isolates_stores:
  assumes "req_method req = js ''POST''" and "req_body req = Some b"
    and "req_stores b = StoreIds ids" and "\<forall>storeId \<in> set ids. knownStore storeId"
  shows "(validQuery (req_query b) \<and> ids \<noteq> []
          \<and> (\<forall>storeId \<in> set ids. run storeId (sanitize (queryText (req_query b))) \<noteq> Inl Nullish)
          \<longrightarrow> (\<exists>sr. handlerWith run env req = Inr (respond 200 (SearchBody sr))))
       \<and> (\<forall>r sr. handlerWith run env req = Inr r \<and> reply_body r = SearchBody sr \<longrightarrow>
            resp_stores sr =
              map (\<lambda>storeId.
                    case run storeId (resp_query sr) of
                      Inr results \<Rightarrow>
                        \<lparr>sr_id = storeId, sr_name = storeDisplayName storeId,
                         sr_results = results, sr_error = None, sr_count = length results\<rparr>
                    | Inl rej \<Rightarrow>
                        \<lparr>sr_id = storeId, sr_name = storeDisplayName storeId,
                         sr_results = [],
                         sr_error = (case rej of ErrorObject msg \<Rightarrow> Some msg | Nullish \<Rightarrow> None),
                         sr_count = 0\<rparr>)
                  ids)"
proof (intro conjI impI allI)
  have known: "filter (\<lambda>storeId. lookupConfig storeId \<noteq> Absent) ids = ids"
  proof -
    have "\<And>storeId. knownStore storeId \<Longrightarrow> lookupConfig storeId \<noteq> Absent"
      unfolding knownStore_def lookupConfig_def
      by (auto simp: map_of_eq_None_iff split: option.splits)
    with assms(4) show ?thesis by (simp add: filter_id_conv)
  qed
  {
    assume v: "validQuery (req_query b) \<and> ids \<noteq> []
          \<and> (\<forall>storeId \<in> set ids. run storeId (sanitize (queryText (req_query b))) \<noteq> Inl Nullish)"
    define q where "q = sanitize (queryText (req_query b))"
    define g where "g = (\<lambda>storeId. case run storeId q of
        Inr results \<Rightarrow> (storeId, results, None :: jstring option)
      | Inl (ErrorObject msg) \<Rightarrow> (storeId, [], Some msg)
      | Inl Nullish \<Rightarrow> (storeId, [], None))"
    have "\<forall>storeId \<in> set ids. settle storeId (run storeId q) = Inr (g storeId)"
      using v unfolding q_def g_def settle_def
      by (auto split: sum.splits rejection.splits)
    then have "mapE (\<lambda>storeId. settle storeId (run storeId q)) ids = Inr (map g ids)"
      by (rule mapE_all_Inr)
    moreover have "js ''POST'' \<noteq> js ''OPTIONS''" by (simp add: js_def)
    ultimately have "handlerWith run env req = Inr (respond 200 (SearchBody
           \<lparr>resp_query = q, resp_category = orElse (req_category b) JNull,
            resp_timestamp = now env, resp_stores = map storeResult (map g ids)\<rparr>))"
      using assms(1-3) v known by (simp add: handlerWith_def q_def)
    then show "\<exists>sr. handlerWith run env req = Inr (respond 200 (SearchBody sr))" by blast
  }
  fix r sr
  assume h: "handlerWith run env req = Inr r \<and> reply_body r = SearchBody sr"
  from handlerWith_search [of run env req r sr] h assms(2,3) known
  obtain rs where m: "mapE (\<lambda>storeId. settle storeId (run storeId (resp_query sr))) ids = Inr rs"
    and st: "resp_stores sr = map storeResult rs"
    by auto
  from mapE_Inr [OF m]
  have l2: "list_all2 (\<lambda>storeId y. settle storeId (run storeId (resp_query sr)) = Inr y) ids rs" .
  have "map storeResult rs = map (\<lambda>storeId.
                    case run storeId (resp_query sr) of
                      Inr results \<Rightarrow>
                        \<lparr>sr_id = storeId, sr_name = storeDisplayName storeId,
                         sr_results = results, sr_error = None, sr_count = length results\<rparr>
                    | Inl rej \<Rightarrow>
                        \<lparr>sr_id = storeId, sr_name = storeDisplayName storeId,
                         sr_results = [],
                         sr_error = (case rej of ErrorObject msg \<Rightarrow> Some msg | Nullish \<Rightarrow> None),
                         sr_count = 0\<rparr>) ids"
    using l2
  proof (induction ids rs rule: list_all2_induct)
    case Nil
    then show ?case by simp
  next
    case (Cons x xs y ys)
    from Cons(1) have "storeResult y = (case run x (resp_query sr) of
                      Inr results \<Rightarrow>
                        \<lparr>sr_id = x, sr_name = storeDisplayName x,
                         sr_results = results, sr_error = None, sr_count = length results\<rparr>
                    | Inl rej \<Rightarrow>
                        \<lparr>sr_id = x, sr_name = storeDisplayName x,
                         sr_results = [],
                         sr_error = (case rej of ErrorObject msg \<Rightarrow> Some msg | Nullish \<Rightarrow> None),
                         sr_count = 0\<rparr>)"
      by (auto simp: settle_def storeResult_def split: sum.splits rejection.splits)
    with Cons(3) show ?case by simp
  qed
  with st show "resp_stores sr = map (\<lambda>storeId.
                    case run storeId (resp_query sr) of
                      Inr results \<Rightarrow>
                        \<lparr>sr_id = storeId, sr_name = storeDisplayName storeId,
                         sr_results = results, sr_error = None, sr_count = length results\<rparr>
                    | Inl rej \<Rightarrow>
                        \<lparr>sr_id = storeId, sr_name = storeDisplayName storeId,
                         sr_results = [],
                         sr_error = (case rej of ErrorObject msg \<Rightarrow> Some msg | Nullish \<Rightarrow> None),
                         sr_count = 0\<rparr>) ids"
    by simp
qed

lemma known_three: "knownStore (js ''vici'') \<and> knownStore (js ''hm'') \<and> knownStore (js ''asos'')"
  by (simp add: knownStore_def STORE_CONFIG_def js_def)

lemma display_hm: "storeDisplayName (js ''hm'') = js ''H&M''"
  by (simp add: storeDisplayName_def eval_defs adapter_defs)

lemma display_asos: "storeDisplayName (js ''asos'') = js ''ASOS''"
  by (simp add: storeDisplayName_def eval_defs adapter_defs)

theorem handler_isolates_stores_witness:
  "knownStore (js ''vici'') \<and> knownStore (js ''hm'') \<and> knownStore (js ''asos'')
   \<and> validQuery (JStr (js ''red dress''))
   \<and> (\<exists>sr. handlerWith threeTasks examplePlatform
               (searchRequest [js ''vici'', js ''hm'', js ''asos'']) = Inr (respond 200 (SearchBody sr))
           \<and> resp_stores sr =
               [\<lparr>sr_id = js ''vici'', sr_name = js ''Vici'', sr_results = [],
                 sr_error = Some (js ''boom''), sr_count = 0\<rparr>,
                \<lparr>sr_id = js ''hm'', sr_name = js ''H&M'',
                 sr_results = [dressProduct ''prod_0'' ''Dress A'' ''$1.50''],
                 sr_error = None, sr_count = 1\<rparr>,
                \<lparr>sr_id = js ''asos'', sr_name = js ''ASOS'', sr_results = [],
                 sr_error = None, sr_count = 0\<rparr>])"
proof -
  define req where "req = searchRequest [js ''vici'', js ''hm'', js ''asos'']"
  define b where "b = \<lparr>req_query = JStr (js ''red dress''),
      req_stores = StoreIds [js ''vici'', js ''hm'', js ''asos''], req_category = JUndefined\<rparr>"
  have a1: "req_method req = js ''POST''" and a2: "req_body req = Some b"
    and a3: "req_stores b = StoreIds [js ''vici'', js ''hm'', js ''asos'']"
    by (simp_all add: req_def b_def searchRequest_def)
  have a4: "\<forall>storeId \<in> set [js ''vici'', js ''hm'', js ''asos'']. knownStore storeId"
    using known_three by simp
  have v: "validQuery (JStr (js ''red dress''))" by (simp add: eval_defs handler_defs)
  have nn: "\<forall>storeId \<in> set [js ''vici'', js ''hm'', js ''asos''].
      threeTasks storeId (sanitize (queryText (req_query b))) \<noteq> Inl Nullish"
    by (simp add: threeTasks_def)
  note iso = handler_isolates_stores [OF a1 a2 a3 a4, of threeTasks examplePlatform]
  from iso v nn obtain sr where
    run: "handlerWith threeTasks examplePlatform req = Inr (respond 200 (SearchBody sr))"
    by (auto simp: b_def)
  have "reply_body (respond 200 (SearchBody sr)) = SearchBody sr" by (simp add: respond_def)
  with iso run have "resp_stores sr =
      map (\<lambda>storeId.
             case threeTasks storeId (resp_query sr) of
               Inr results \<Rightarrow>
                 \<lparr>sr_id = storeId, sr_name = storeDisplayName storeId,
                  sr_results = results, sr_error = None, sr_count = length results\<rparr>
             | Inl rej \<Rightarrow>
                 \<lparr>sr_id = storeId, sr_name = storeDisplayName storeId, sr_results = [],
                  sr_error = (case rej of ErrorObject msg \<Rightarrow> Some msg | Nullish \<Rightarrow> None),
                  sr_count = 0\<rparr>)
          [js ''vici'', js ''hm'', js ''asos'']"
    by blast
  moreover have "js ''hm'' \<noteq> js ''vici''" "js ''asos'' \<noteq> js ''vici''" "js ''asos'' \<noteq> js ''hm''"
    by (simp_all add: js_def)
  ultimately have "resp_stores sr =
               [\<lparr>sr_id = js ''vici'', sr_name = js ''Vici'', sr_results = [],
                 sr_error = Some (js ''boom''), sr_count = 0\<rparr>,
                \<lparr>sr_id = js ''hm'', sr_name = js ''H&M'',
                 sr_results = [dressProduct ''prod_0'' ''Dress A'' ''$1.50''],
                 sr_error = None, sr_count = 1\<rparr>,
                \<lparr>sr_id = js ''asos'', sr_name = js ''ASOS'', sr_results = [],
                 sr_error = None, sr_count = 0\<rparr>]"
    by (simp add: threeTasks_def display_vici display_hm display_asos)
  with run known_three v show ?thesis unfolding req_def by blast
qed

section \<open>Properties of the adapters\<close>

lemma allValid_Nil: "allValid []"
  by (simp add: allValid_def)

lemma allValid_filter: "allValid (filterValidProducts xs)"
  by (auto simp: allValid_def filterValidProducts_def validProduct_def split: option.splits)

lemma allValid_catchAll: "(\<And>ps. body = Inr ps \<Longrightarrow> allValid ps) \<Longrightarrow> allValid (catchAll body)"
  by (cases body) (simp_all add: catchAll_def allValid_Nil)

lemma allValid_formatAll: "formatAll callback v = Inr ps \<Longrightarrow> allValid ps"
  by (auto simp: formatAll_def dest!: bindE_Inr intro: allValid_filter)

lemma allValid_shopify: "allValid (scrapeShopifyStore env query storeId)"
  unfolding scrapeShopifyStore_def Let_def
  by (auto split: config_entry.splits option.splits
      intro!: allValid_Nil allValid_catchAll dest!: bindE_Inr dest: allValid_formatAll)

lemma allValid_asos: "allValid (scrapeASOS env query)"
  unfolding scrapeASOS_def
  by (auto intro!: allValid_catchAll dest!: bindE_Inr dest: allValid_formatAll)

lemma allValid_hm: "allValid (scrapeHM env query)"
  unfolding scrapeHM_def
  by (auto intro!: allValid_catchAll dest!: bindE_Inr intro: allValid_filter)

lemma allValid_lulus: "allValid (scrapeLulus env query)"
  unfolding scrapeLulus_def
  by (auto intro!: allValid_catchAll dest!: bindE_Inr intro: allValid_filter)

lemma allValid_nordstrom: "allValid (scrapeNordstrom env query)"
  unfolding scrapeNordstrom_def
  by (auto intro!: allValid_catchAll dest!: bindE_Inr intro: allValid_filter)

lemma allValid_shein: "allValid (scrapeShein env query)"
  unfolding scrapeShein_def
  by (auto intro!: allValid_catchAll dest!: bindE_Inr intro: allValid_filter)

lemma allValid_searchStore: "allValid (searchStore env storeId query)"
  unfolding searchStore_def
  by (simp add: allValid_Nil allValid_shopify allValid_asos allValid_hm allValid_lulus
      allValid_nordstrom allValid_shein split: config_entry.splits option.splits)

text \<open>
  C8. Every adapter returns what the validity filter lets through (or nothing), so
  every product in the \<open>results\<close> of any Store Result of the final Search Response has
  a title other than \<open>Unknown Product\<close> and a link other than \<open>#\<close>.
\<close>

theorem results_pass_filter:
  "allValid (searchStore env storeId query)
   \<and> (\<forall>r sr. handler env req = Inr r \<and> reply_body r = SearchBody sr \<longrightarrow>
         (\<forall>x \<in> set (resp_stores sr). \<forall>p \<in> set (sr_results x).
            title p \<noteq> JStr (js ''Unknown Product'') \<and> link p \<noteq> JStr (js ''#'')))"
proof (intro conjI allI impI)
  show "allValid (searchStore env storeId query)" by (rule allValid_searchStore)
next
  fix r sr
  assume h: "handler env req = Inr r \<and> reply_body r = SearchBody sr"
  then obtain ids where "resp_stores sr =
      map (\<lambda>storeId. storeResult (storeId, searchStore env storeId (resp_query sr), None)) ids"
    using handler_stores by blast
  then show "\<forall>x \<in> set (resp_stores sr). \<forall>p \<in> set (sr_results x).
            title p \<noteq> JStr (js ''Unknown Product'') \<and> link p \<noteq> JStr (js ''#'')"
    using allValid_searchStore [of env _ "resp_query sr"]
    by (auto simp: storeResult_def allValid_def UNKNOWN_PRODUCT_def)
qed

theorem results_pass_filter_witness:
  "handler shopifyPlatform (searchRequest [js ''vici'']) = Inr viciReply
   \<and> allValid (searchStore shopifyPlatform (js ''vici'') (js ''red dress''))
   \<and> title (dressProduct ''prod_0'' ''Dress A'' ''$1.50'') \<noteq> JStr (js ''Unknown Product'')
   \<and> link (dressProduct ''prod_0'' ''Dress A'' ''$1.50'') \<noteq> JStr (js ''#'')"
proof -
  note filt = results_pass_filter [of shopifyPlatform "js ''vici''" "js ''red dress''"
      "searchRequest [js ''vici'']"]
  obtain sr where sr: "reply_body viciReply = SearchBody sr"
    and x: "\<lparr>sr_id = js ''vici'', sr_name = js ''Vici'',
            sr_results = [dressProduct ''prod_0'' ''Dress A'' ''$1.50'',
                          dressProduct ''prod_1'' ''Dress B'' ''$150.00''],
            sr_error = None, sr_count = 2\<rparr> \<in> set (resp_stores sr)"
    by (simp add: viciReply_def respond_def)
  from filt handler_vici sr
  have "\<forall>x \<in> set (resp_stores sr). \<forall>p \<in> set (sr_results x).
          title p \<noteq> JStr (js ''Unknown Product'') \<and> link p \<noteq> JStr (js ''#'')"
    by blast
  with x have "title (dressProduct ''prod_0'' ''Dress A'' ''$1.50'') \<noteq> JStr (js ''Unknown Product'')
      \<and> link (dressProduct ''prod_0'' ''Dress A'' ''$1.50'') \<noteq> JStr (js ''#'')"
    by force
  with filt handler_vici show ?thesis by blast
qed


section \<open>Transport failures\<close>









section \<open>The price mapping of the Shopify adapter\<close>






end
